theory Spec2Isabelle
  imports Main
begin

section \<open>The scripted tutor: data model\<close>

text \<open>
  The repository holds two tutors. The scripted one keeps its five questions in the
  client (\<^verbatim>\<open>QUESTIONS\<close>), decides every phase transition in
  \<^verbatim>\<open>geminiService.sendMessage\<close> and asks the generative model for display text
  only. Its driver is \<^verbatim>\<open>App.tsx\<close> (\<^verbatim>\<open>processTutorTurn\<close>,
  \<^verbatim>\<open>handleAction\<close>). Numbers are JavaScript numbers; the model carries them as
  integers, and an absent argument (\<^verbatim>\<open>undefined\<close>) as \<open>None\<close>.
\<close>

datatype tutor_phase = Intro | Teach | Ask | Evaluate | Report | Completed

datatype screen = ScreenIntro | ScreenLesson | ScreenQuestion | ScreenFeedback | ScreenFinal

datatype input_kind = InputNone | MultipleChoice

record Choice =
  choice_id :: int
  choice_label :: string

record QuestionData =
  question_id :: int
  question :: string
  question_choices :: "Choice list"
  correctAnswerId :: int
  correctAnswerLabel :: string

record TutorState =
  q :: int
  score :: int

record TutorUI =
  ui_screen :: screen
  ui_text :: string
  ui_choices :: "Choice list"
  ui_input :: input_kind
  ui_progress :: int

record TutorResponse =
  phase :: tutor_phase
  state :: TutorState
  ui :: TutorUI

definition mkChoice :: "int \<Rightarrow> string \<Rightarrow> Choice" where
  "mkChoice i l = \<lparr>choice_id = i, choice_label = l\<rparr>"

text \<open>The hardcoded question table; accented letters are written as their UTF-8 bytes.\<close>

definition QUESTIONS :: "QuestionData list" where
  "QUESTIONS =
    [\<lparr>question_id = 0,
      question = ''What does 'Bonjour' mean in French?'',
      question_choices =
        [mkChoice 0 ''Good afternoon'', mkChoice 1 ''Hello / Good day'',
         mkChoice 2 ''Good evening'', mkChoice 3 ''Goodbye''],
      correctAnswerId = 1,
      correctAnswerLabel = ''Hello / Good day''\<rparr>,
     \<lparr>question_id = 1,
      question = ''How do you say 'Thank you' in French?'',
      question_choices =
        [mkChoice 0 ''Au revoir'', mkChoice 1 ''Oui'', mkChoice 2 ''Merci'', mkChoice 3 ''Non''],
      correctAnswerId = 2,
      correctAnswerLabel = ''Merci''\<rparr>,
     \<lparr>question_id = 2,
      question = ''What is 'Au revoir' used for?'',
      question_choices =
        [mkChoice 0 ''Greeting someone'', mkChoice 1 ''Asking for help'',
         mkChoice 2 ''Saying goodbye'', mkChoice 3 ''Expressing gratitude''],
      correctAnswerId = 2,
      correctAnswerLabel = ''Saying goodbye''\<rparr>,
     \<lparr>question_id = 3,
      question = ''Which phrase means 'Please'?'',
      question_choices =
        [mkChoice 0 ''Excusez-moi'',
         mkChoice 1 (''S'il vous pla'' @ [CHR 0xC3, CHR 0xAE] @ ''t''),
         mkChoice 2 ''De rien'', mkChoice 3 ''Je t'aime''],
      correctAnswerId = 1,
      correctAnswerLabel = ''S'il vous pla'' @ [CHR 0xC3, CHR 0xAE] @ ''t''\<rparr>,
     \<lparr>question_id = 4,
      question = ''If you want to apologize or get attention, you say:'',
      question_choices =
        [mkChoice 0 ([CHR 0xC3, CHR 0x87] @ ''a va?''), mkChoice 1 ''Bonne nuit'',
         mkChoice 2 ''Excusez-moi'', mkChoice 3 (''Enchant'' @ [CHR 0xC3, CHR 0xA9])],
      correctAnswerId = 2,
      correctAnswerLabel = ''Excusez-moi''\<rparr>]"

text \<open>
  \<^verbatim>\<open>QUESTIONS[i]\<close>: the entry when \<open>i\<close> is an index of the table, and
  \<^verbatim>\<open>undefined\<close> (\<open>None\<close>) otherwise; reading a field of \<^verbatim>\<open>undefined\<close>
  throws a TypeError, which the callers below turn into their failure branch.
\<close>

definition questionAt :: "int \<Rightarrow> QuestionData option" where
  "questionAt i =
     (if 0 \<le> i \<and> i < int (length QUESTIONS) then Some (QUESTIONS ! nat i) else None)"

text \<open>\<^verbatim>\<open>choices.find(c => c.id === userInput)?.label\<close>\<close>

definition choiceLabel :: "Choice list \<Rightarrow> int option \<Rightarrow> string option" where
  "choiceLabel cs userInput =
     (case userInput of
        None \<Rightarrow> None
      | Some i \<Rightarrow> map_option choice_label (find (\<lambda>c. choice_id c = i) cs))"

section \<open>The scripted tutor: progress bar\<close>

definition getProgress :: "int \<Rightarrow> tutor_phase \<Rightarrow> int" where
  "getProgress qi ph =
     (if ph = Intro then 0
      else if ph = Teach then 10
      else if ph = Report \<or> qi \<ge> int (length QUESTIONS) then 100
      else 10 + qi * 18)"

section \<open>The scripted tutor: one turn of \<^verbatim>\<open>sendMessage\<close>\<close>

text \<open>
  The text requests sent to the model, by the values interpolated into them: the
  introduction, the feedback on a correct answer (question, label of the chosen option),
  the feedback on a wrong answer (question, label of the right option), the final report
  and the closing message (score, number of questions).
\<close>

datatype prompt =
    IntroPrompt
  | CorrectPrompt string "string option"
  | IncorrectPrompt string string
  | ReportPrompt int nat
  | CompletedPrompt int nat

text \<open>
  The world outside the client. \<open>client\<close> is \<^verbatim>\<open>new GoogleGenAI(...)\<close>, built
  before the \<^verbatim>\<open>try\<close> block: \<open>None\<close> when the constructor throws, otherwise
  the \<^verbatim>\<open>generateContent\<close> of the client, which yields the text or throws
  (\<open>None\<close>). \<open>dialogs_complete\<close> says whether the alerts and the key selection
  dialog of the \<^verbatim>\<open>catch\<close> block run to their end.
\<close>

record env =
  client :: "(prompt \<Rightarrow> string option) option"
  dialogs_complete :: bool

datatype failure = ClientError | DialogError

text \<open>The object returned at the end of the \<^verbatim>\<open>try\<close> block.\<close>

definition respond ::
  "tutor_phase \<Rightarrow> int \<Rightarrow> int \<Rightarrow> screen \<Rightarrow> string \<Rightarrow> Choice list \<Rightarrow> input_kind \<Rightarrow> TutorResponse" where
  "respond nextPhase nextQ nextScore uiScreen uiText uiChoices uiInput =
     \<lparr>phase = nextPhase,
      state = \<lparr>q = nextQ, score = nextScore\<rparr>,
      ui = \<lparr>ui_screen = uiScreen, ui_text = uiText, ui_choices = uiChoices,
            ui_input = uiInput, ui_progress = getProgress nextQ nextPhase\<rparr>\<rparr>"

text \<open>The fallback object returned by the \<^verbatim>\<open>catch\<close> block.\<close>

definition fallback :: "tutor_phase \<Rightarrow> int \<Rightarrow> int \<Rightarrow> TutorResponse" where
  "fallback currentPhase currentQ currentScore =
     \<lparr>phase = currentPhase,
      state = \<lparr>q = currentQ, score = currentScore\<rparr>,
      ui = \<lparr>ui_screen = ScreenIntro,
            ui_text = ''Error: Failed to load tutor content. Please check your network and API key.'',
            ui_choices = [], ui_input = InputNone,
            ui_progress = getProgress currentQ currentPhase\<rparr>\<rparr>"

text \<open>
  The \<^verbatim>\<open>try\<close> block, one branch per current phase, in the order of the source.
  \<open>None\<close> is an exception thrown inside the block: a failed generation or a read of
  a question that does not exist.
\<close>

definition sendMessage_try ::
  "(prompt \<Rightarrow> string option) \<Rightarrow> tutor_phase \<Rightarrow> int \<Rightarrow> int \<Rightarrow> int option \<Rightarrow> TutorResponse option" where
  "sendMessage_try generateContent currentPhase currentQ currentScore userInput =
     (case currentPhase of
        Intro \<Rightarrow>
          map_option (\<lambda>t. respond Teach currentQ currentScore ScreenLesson t [] InputNone)
            (generateContent IntroPrompt)
      | Teach \<Rightarrow>
          (case questionAt 0 of
             None \<Rightarrow> None
           | Some questionData \<Rightarrow>
               Some (respond Ask 0 currentScore ScreenQuestion (question questionData)
                       (question_choices questionData) MultipleChoice))
      | Ask \<Rightarrow>
          (case questionAt currentQ of
             None \<Rightarrow> None
           | Some currentQuestion \<Rightarrow>
               if userInput = Some (correctAnswerId currentQuestion)
               then map_option
                      (\<lambda>t. respond Evaluate currentQ (currentScore + 1) ScreenFeedback t [] InputNone)
                      (generateContent
                         (CorrectPrompt (question currentQuestion)
                            (choiceLabel (question_choices currentQuestion) userInput)))
               else map_option
                      (\<lambda>t. respond Evaluate currentQ currentScore ScreenFeedback t [] InputNone)
                      (generateContent
                         (IncorrectPrompt (question currentQuestion)
                            (correctAnswerLabel currentQuestion))))
      | Evaluate \<Rightarrow>
          (let nextQ = currentQ + 1 in
           if nextQ < int (length QUESTIONS)
           then (case questionAt nextQ of
                   None \<Rightarrow> None
                 | Some questionData \<Rightarrow>
                     Some (respond Ask nextQ currentScore ScreenQuestion (question questionData)
                             (question_choices questionData) MultipleChoice))
           else map_option (\<lambda>t. respond Report nextQ currentScore ScreenFinal t [] InputNone)
                  (generateContent (ReportPrompt currentScore (length QUESTIONS))))
      | Report \<Rightarrow>
          map_option (\<lambda>t. respond Completed currentQ currentScore ScreenFinal t [] InputNone)
            (generateContent (CompletedPrompt currentScore (length QUESTIONS)))
      | Completed \<Rightarrow>
          Some (respond currentPhase currentQ currentScore ScreenIntro [] [] InputNone))"

text \<open>
  \<^verbatim>\<open>sendMessage(currentPhase, currentQ, currentScore, userInput)\<close>. The promise
  resolves to the response of the \<^verbatim>\<open>try\<close> block, or to the fallback when
  the block threw and the \<^verbatim>\<open>catch\<close> block finished; it rejects (\<open>Inl\<close>)
  when the client cannot be built or the \<^verbatim>\<open>catch\<close> block itself throws.
\<close>

definition sendMessage ::
  "env \<Rightarrow> tutor_phase \<Rightarrow> int \<Rightarrow> int \<Rightarrow> int option \<Rightarrow> failure + TutorResponse" where
  "sendMessage e currentPhase currentQ currentScore userInput =
     (case client e of
        None \<Rightarrow> Inl ClientError
      | Some generateContent \<Rightarrow>
          (case sendMessage_try generateContent currentPhase currentQ currentScore userInput of
             Some response \<Rightarrow> Inr response
           | None \<Rightarrow>
               if dialogs_complete e then Inr (fallback currentPhase currentQ currentScore)
               else Inl DialogError))"

section \<open>The scripted tutor: the driver in \<^verbatim>\<open>App.tsx\<close>\<close>

text \<open>The component state and the three refs that hold the session.\<close>

record app =
  tutorResponse :: "TutorResponse option"
  loading :: bool
  error :: "string option"
  selectedChoiceId :: "int option"
  currentPhaseRef :: tutor_phase
  currentQRef :: int
  currentScoreRef :: int

definition initial_app :: app where
  "initial_app =
     \<lparr>tutorResponse = None, loading = False, error = None, selectedChoiceId = None,
      currentPhaseRef = Intro, currentQRef = 0, currentScoreRef = 0\<rparr>"

text \<open>
  \<^verbatim>\<open>processTutorTurn\<close>, from the call to the end of its \<^verbatim>\<open>finally\<close>:
  a resolved response is shown and copied into the refs; a rejection only sets the error.
\<close>

definition processTutorTurn ::
  "env \<Rightarrow> app \<Rightarrow> tutor_phase \<Rightarrow> int \<Rightarrow> int \<Rightarrow> int option \<Rightarrow> app" where
  "processTutorTurn e a ph qi sc userInput =
     (case sendMessage e ph qi sc userInput of
        Inr response \<Rightarrow>
          a\<lparr>tutorResponse := Some response, loading := False, error := None,
            selectedChoiceId := None,
            currentPhaseRef := phase response,
            currentQRef := q (state response),
            currentScoreRef := score (state response)\<rparr>
      | Inl _ \<Rightarrow>
          a\<lparr>loading := False,
            error := Some ''Failed to load tutor content. Please try again.''\<rparr>)"

text \<open>
  The locals \<^verbatim>\<open>nextPhase\<close>, \<^verbatim>\<open>nextQ\<close>, \<^verbatim>\<open>nextScore\<close> that
  \<^verbatim>\<open>handleAction\<close> computes from the refs before it calls
  \<^verbatim>\<open>processTutorTurn\<close> (the branches that do not return early).
\<close>

definition handleAction_next :: "tutor_phase \<Rightarrow> int \<Rightarrow> int \<Rightarrow> tutor_phase \<times> int \<times> int" where
  "handleAction_next currentPhase currentQ currentScore =
     (case currentPhase of
        Intro \<Rightarrow> (Teach, currentQ, currentScore)
      | Teach \<Rightarrow> (Ask, 0, currentScore)
      | Ask \<Rightarrow> (Evaluate, currentQ, currentScore)
      | Evaluate \<Rightarrow>
          (let nextQ = currentQ + 1 in
           (if nextQ < 5 then Ask else Report, nextQ, currentScore))
      | Report \<Rightarrow> (Completed, currentQ, currentScore)
      | Completed \<Rightarrow> (currentPhase, currentQ, currentScore))"

definition handleAction :: "env \<Rightarrow> app \<Rightarrow> int option \<Rightarrow> app" where
  "handleAction e a actionInput =
     (if tutorResponse a = None then a
      else if currentPhaseRef a = Ask \<and> actionInput = None
      then a\<lparr>error := Some ''Please select an answer.''\<rparr>
      else if currentPhaseRef a = Completed
      then processTutorTurn e
             (a\<lparr>tutorResponse := None, currentPhaseRef := Intro,
                currentQRef := 0, currentScoreRef := 0\<rparr>)
             Intro 0 0 None
      else (case handleAction_next (currentPhaseRef a) (currentQRef a) (currentScoreRef a) of
              (nextPhase, nextQ, nextScore) \<Rightarrow>
                processTutorTurn e a nextPhase nextQ nextScore actionInput))"

text \<open>
  What \<^verbatim>\<open>renderContent\<close> lets the learner do. While loading nothing can be
  pressed. With an error only the Retry button is shown, which calls
  \<^verbatim>\<open>handleAction()\<close>. Otherwise the button depends on the phase of the
  response shown: in the phases intro, teach, evaluate and report it calls
  \<^verbatim>\<open>handleAction()\<close>; in phase ask it calls \<^verbatim>\<open>handleAction\<close> with
  the selected choice and is disabled without one; in phase completed there is none.
\<close>

definition action_enabled :: "app \<Rightarrow> int option \<Rightarrow> bool" where
  "action_enabled a actionInput =
     (\<not> loading a \<and>
      (if error a \<noteq> None then actionInput = None
       else (case tutorResponse a of
               None \<Rightarrow> False
             | Some r \<Rightarrow>
                 (case phase r of
                    Ask \<Rightarrow> actionInput \<noteq> None \<and> actionInput = selectedChoiceId a
                  | Completed \<Rightarrow> False
                  | _ \<Rightarrow> actionInput = None))))"

text \<open>The choice buttons: shown without an error, for the choices of the response.\<close>

definition choice_enabled :: "app \<Rightarrow> int \<Rightarrow> bool" where
  "choice_enabled a i =
     (\<not> loading a \<and> error a = None \<and>
      (case tutorResponse a of
         None \<Rightarrow> False
       | Some r \<Rightarrow> ui_input (ui r) = MultipleChoice \<and> i \<in> set (map choice_id (ui_choices (ui r)))))"

section \<open>The generative tutor: data model\<close>

text \<open>
  The second tutor (\<^verbatim>\<open>callGemini\<close> with its own \<^verbatim>\<open>App\<close>) lets the
  generative model produce the whole response, phase and state included, and copies it
  into the session. \<^verbatim>\<open>TOTAL_QUESTIONS\<close> comes from a constants module that is not
  part of the sources; the functions that read it take it as the parameter \<open>totalQuestions\<close>.
\<close>

datatype Phase = PIntro | PTeach | PAsk | PEvaluate | PReport | PCompleted | PPaused

datatype InputType = NoInput | MultipleChoiceInput

record Option =
  option_id :: int
  option_label :: string

record State =
  question_index :: int
  state_score :: int

record Interface =
  title :: string
  content :: string
  instructions :: string
  input_type :: InputType
  options :: "Option list option"
  progress :: int

record PhaseResponse =
  resp_phase :: Phase
  resp_state :: State
  interface :: Interface
  correct_answer_id :: "int option"

text \<open>
  What \<^verbatim>\<open>JSON.parse\<close> returns, as far as the component reads it: a value of
  the declared shape, or a value whose reads throw (\<^verbatim>\<open>null\<close>, or a value without
  a \<^verbatim>\<open>state\<close> object, for which \<^verbatim>\<open>response.state.question_index\<close>
  throws a TypeError with the given message).
\<close>

datatype parsed = Shaped PhaseResponse | Unreadable string

section \<open>The generative tutor: strings\<close>

text \<open>
  A text that the code trims, lowers or parses is a list of UTF-16 code units; \<open>js\<close>
  writes an ASCII literal as such a list. Texts that are only passed on stay strings.
\<close>

type_synonym jsstring = "nat list"

definition js :: "string \<Rightarrow> jsstring" where
  "js s = map of_char s"

text \<open>
  The code units that \<^verbatim>\<open>String.prototype.trim\<close> removes: the white space and
  line terminator characters of ECMAScript (tab, line feed, vertical tab, form feed,
  carriage return, space, U+00A0, U+1680, U+2000 to U+200A, U+2028, U+2029, U+202F,
  U+205F, U+3000 and U+FEFF).
\<close>

definition isWhiteSpace :: "nat \<Rightarrow> bool" where
  "isWhiteSpace u =
     (u \<in> {9, 10, 11, 12, 13, 32, 160, 5760, 8232, 8233, 8239, 8287, 12288, 65279}
      \<or> (8192 \<le> u \<and> u \<le> 8202))"

definition trim :: "jsstring \<Rightarrow> jsstring" where
  "trim s = rev (dropWhile isWhiteSpace (rev (dropWhile isWhiteSpace s)))"

text \<open>
  \<^verbatim>\<open>String.prototype.toLowerCase\<close> follows the Unicode case tables, which are not
  part of the sources: it is a parameter (field \<open>toLowerCase\<close> of the record
  \<open>service\<close> below). On a text of ASCII code units it lowers the letters A to Z,
  which is what \<open>asciiLowerCase\<close> does; the examples use it.
\<close>

definition asciiLowerCase :: "jsstring \<Rightarrow> jsstring" where
  "asciiLowerCase s = map (\<lambda>u. if 65 \<le> u \<and> u \<le> 90 then u + 32 else u) s"

definition startsWith :: "'a list \<Rightarrow> 'a list \<Rightarrow> bool" where
  "startsWith s p = (take (length p) s = p)"

fun includes_str :: "'a list \<Rightarrow> 'a list \<Rightarrow> bool" where
  "includes_str [] p = (p = [])"
| "includes_str (c # cs) p = (startsWith (c # cs) p \<or> includes_str cs p)"

text \<open>\<^verbatim>\<open>s.lastIndexOf(p)\<close>: the last position where \<open>p\<close> occurs, or \<open>-1\<close>.\<close>

definition lastIndexOf :: "'a list \<Rightarrow> 'a list \<Rightarrow> int" where
  "lastIndexOf s p =
     (case filter (\<lambda>i. startsWith (drop i s) p) (rev [0..<Suc (length s)]) of
        [] \<Rightarrow> - 1
      | i # _ \<Rightarrow> int i)"

text \<open>
  \<^verbatim>\<open>s.substring(a, b)\<close>: both indices are clamped to the string and swapped when
  the first is the larger.
\<close>

definition substring :: "'a list \<Rightarrow> int \<Rightarrow> int \<Rightarrow> 'a list" where
  "substring s a b =
     (let n = int (length s);
          a' = max 0 (min a n);
          b' = max 0 (min b n);
          lo = min a' b';
          hi = max a' b'
      in take (nat (hi - lo)) (drop (nat lo) s))"

definition fence :: jsstring where
  "fence = [96, 96, 96]"

text \<open>The removal of a Markdown code fence around the answer, then the second trim.\<close>

definition cleanJson :: "jsstring \<Rightarrow> jsstring" where
  "cleanJson rawJson =
     trim (if startsWith rawJson (fence @ js ''json'')
           then substring rawJson 7 (lastIndexOf rawJson fence)
           else if startsWith rawJson fence
           then substring rawJson 3 (lastIndexOf rawJson fence)
           else rawJson)"

section \<open>The generative tutor: \<^verbatim>\<open>callGemini\<close>\<close>

text \<open>
  The prompt is a fixed text around the values interpolated into it, and the model keeps
  those values: phase, state, the feedback sentence (only in phase evaluate: whether the
  previous answer counts as correct, and the chosen label), the command block (only for a
  non-empty learner input: the input and the chosen label) and the number of questions.
\<close>

record GeminiPrompt =
  prompt_phase :: Phase
  prompt_state :: State
  feedbackContext :: "(bool \<times> string option) option"
  commandHandlingInstructions :: "(jsstring \<times> string option) option"
  prompt_totalQuestions :: int

definition buildGeminiPrompt ::
  "Phase \<Rightarrow> State \<Rightarrow> bool option \<Rightarrow> string option \<Rightarrow> jsstring option \<Rightarrow> int \<Rightarrow> GeminiPrompt" where
  "buildGeminiPrompt currentPhase currentState isPreviousAnswerCorrect selectedLabel
       learnerInput totalQuestions =
     \<lparr>prompt_phase = currentPhase,
      prompt_state = currentState,
      feedbackContext =
        (if currentPhase = PEvaluate
         then Some (isPreviousAnswerCorrect = Some True, selectedLabel) else None),
      commandHandlingInstructions =
        (case learnerInput of
           None \<Rightarrow> None
         | Some t \<Rightarrow> if t = [] then None else Some (t, selectedLabel)),
      prompt_totalQuestions = totalQuestions\<rparr>"

text \<open>
  What one \<^verbatim>\<open>generateContent\<close> call does: it throws an error with a message, or
  it answers with a text that may be missing.
\<close>

datatype generated = Throws string | Answer "jsstring option"

text \<open>
  The collaborators of the client: the client constructor (\<open>Inl\<close> the message of
  the error it throws, \<open>Inr\<close> the \<^verbatim>\<open>generateContent\<close> of the client),
  \<^verbatim>\<open>JSON.parse\<close> (\<open>Inl\<close> the message of its SyntaxError) and
  \<^verbatim>\<open>String.prototype.toLowerCase\<close>.
\<close>

record service =
  connect :: "string + (GeminiPrompt \<Rightarrow> generated)"
  JSON_parse :: "jsstring \<Rightarrow> string + parsed"
  toLowerCase :: "jsstring \<Rightarrow> jsstring"

text \<open>The message of the error that the \<^verbatim>\<open>catch\<close> block rethrows.\<close>

definition errorMessage :: "string \<Rightarrow> string" where
  "errorMessage m =
     (if includes_str m ''400'' \<or> includes_str m ''bad request''
      then ''There was an issue with the AI request (e.g., malformed prompt). Please try again, or report an issue if it persists.''
      else if includes_str m ''500'' \<or> includes_str m ''internal server error''
      then ''The AI tutor encountered a server error. Please try again in a moment.''
      else if includes_str m ''429'' \<or> includes_str m ''rate limit''
      then ''Too many requests. Please wait a moment before trying again.''
      else ''Failed to get response from AI tutor. Please try again.'')"

text \<open>
  \<^verbatim>\<open>callGemini\<close> returns its result (\<open>Inl\<close> the message of the error thrown)
  together with the list of prompts it has sent to the model. The parsed value is returned
  as it is: the cast to \<^verbatim>\<open>PhaseResponse\<close> checks nothing.
\<close>

definition callGemini ::
  "service \<Rightarrow> int \<Rightarrow> Phase \<Rightarrow> State \<Rightarrow> bool option \<Rightarrow> string option \<Rightarrow> jsstring option
     \<Rightarrow> (string + parsed) \<times> GeminiPrompt list" where
  "callGemini sv totalQuestions currentPhase currentState isPreviousAnswerCorrect selectedLabel learnerInput =
     (case connect sv of
        Inl m \<Rightarrow> (Inl m, [])
      | Inr generateContent \<Rightarrow>
          (let prompt = buildGeminiPrompt currentPhase currentState isPreviousAnswerCorrect
                          selectedLabel learnerInput totalQuestions
           in (case generateContent prompt of
                 Throws m \<Rightarrow> Inl (errorMessage m)
               | Answer None \<Rightarrow> Inl (errorMessage ''Gemini response was empty or malformed.'')
               | Answer (Some t) \<Rightarrow>
                   (let rawJson = trim t in
                    if rawJson = [] then Inl (errorMessage ''Gemini response was empty or malformed.'')
                    else (case JSON_parse sv (cleanJson rawJson) of
                            Inl m \<Rightarrow> Inl (errorMessage m)
                          | Inr response \<Rightarrow> Inr response)),
               [prompt])))"

section \<open>The generative tutor: the \<^verbatim>\<open>App\<close> component\<close>

record TutorRef =
  ref_question_index :: int
  ref_score :: int
  currentPhase :: Phase
  ref_correctAnswerId :: "int option"
  selectedOptionLabel :: "string option"

text \<open>
  The component state, the session ref, and \<open>sent\<close>: the prompts sent to the model
  so far.
\<close>

record tutor_app =
  phaseResponse :: "PhaseResponse option"
  isLoading :: bool
  fetch_error :: "string option"
  learnerCommandInput :: jsstring
  tutorStateRef :: TutorRef
  sent :: "GeminiPrompt list"

definition initial_tutor_app :: tutor_app where
  "initial_tutor_app =
     \<lparr>phaseResponse = None, isLoading = True, fetch_error = None, learnerCommandInput = [],
      tutorStateRef =
        \<lparr>ref_question_index = 0, ref_score = 0, currentPhase = PIntro,
         ref_correctAnswerId = None, selectedOptionLabel = None\<rparr>,
      sent = []\<rparr>"

text \<open>
  \<^verbatim>\<open>fetchGeminiResponse\<close>, from the call to the end of its \<^verbatim>\<open>finally\<close>.
  A response of the declared shape replaces phase, state and stored answer id of the
  session. When \<^verbatim>\<open>callGemini\<close> throws, or reading the response throws, the
  \<^verbatim>\<open>catch\<close> block sets the error message and the session stays as it is.
\<close>

definition fetchGeminiResponse ::
  "service \<Rightarrow> int \<Rightarrow> tutor_app \<Rightarrow> bool option \<Rightarrow> jsstring option \<Rightarrow> tutor_app" where
  "fetchGeminiResponse sv totalQuestions a isPreviousAnswerCorrect submitLearnerInput =
     (let t = tutorStateRef a in
      case callGemini sv totalQuestions (currentPhase t)
             \<lparr>question_index = ref_question_index t, state_score = ref_score t\<rparr>
             isPreviousAnswerCorrect (selectedOptionLabel t) submitLearnerInput of
        (Inr (Shaped response), prompts) \<Rightarrow>
          a\<lparr>isLoading := False, fetch_error := None, phaseResponse := Some response,
            tutorStateRef :=
              t\<lparr>currentPhase := resp_phase response,
                ref_question_index := question_index (resp_state response),
                ref_score := state_score (resp_state response),
                ref_correctAnswerId := correct_answer_id response,
                selectedOptionLabel := None\<rparr>,
            sent := sent a @ prompts\<rparr>
      | (Inr (Unreadable m), prompts) \<Rightarrow>
          a\<lparr>isLoading := False, fetch_error := Some m, sent := sent a @ prompts\<rparr>
      | (Inl m, prompts) \<Rightarrow>
          a\<lparr>isLoading := False, fetch_error := Some m, sent := sent a @ prompts\<rparr>)"

definition handleOptionSelect ::
  "service \<Rightarrow> int \<Rightarrow> tutor_app \<Rightarrow> int \<Rightarrow> string \<Rightarrow> tutor_app" where
  "handleOptionSelect sv totalQuestions a selectedOptionId selectedLabel =
     (let t = tutorStateRef a in
      if currentPhase t \<noteq> PAsk \<or> isLoading a then a
      else
        (let isCorrect = (ref_correctAnswerId t = Some selectedOptionId);
             t' = t\<lparr>ref_score := (if isCorrect then ref_score t + 1 else ref_score t),
                    ref_question_index := ref_question_index t + 1,
                    selectedOptionLabel := Some selectedLabel,
                    currentPhase := PEvaluate\<rparr>
         in fetchGeminiResponse sv totalQuestions (a\<lparr>tutorStateRef := t'\<rparr>) (Some isCorrect) None))"

definition handleContinue :: "service \<Rightarrow> int \<Rightarrow> tutor_app \<Rightarrow> tutor_app" where
  "handleContinue sv totalQuestions a =
     (let t = tutorStateRef a in
      if isLoading a then a
      else if currentPhase t = PPaused
      then fetchGeminiResponse sv totalQuestions a None (Some (js ''resume''))
      else
        (let target =
               (if currentPhase t = PEvaluate
                then (if ref_question_index t < totalQuestions then PAsk else PReport)
                else if currentPhase t = PIntro then PTeach
                else if currentPhase t = PTeach then PAsk
                else if currentPhase t = PReport then PCompleted
                else currentPhase t)
         in fetchGeminiResponse sv totalQuestions (a\<lparr>tutorStateRef := t\<lparr>currentPhase := target\<rparr>\<rparr>)
              None None))"

text \<open>
  The command that \<^verbatim>\<open>handleCommandSubmit\<close> sends for the text in the input
  field: none for a text that trims to nothing, otherwise the trimmed, lowered text, where
  \<^verbatim>\<open>continue\<close> stands for \<^verbatim>\<open>resume\<close> while the lesson is paused.
\<close>

definition submitCommand :: "service \<Rightarrow> jsstring \<Rightarrow> Phase \<Rightarrow> jsstring option" where
  "submitCommand sv learnerCommandText ph =
     (if trim learnerCommandText = [] then None
      else
        (let command = toLowerCase sv (trim learnerCommandText)
         in Some (if command = js ''continue'' \<and> ph = PPaused then js ''resume'' else command)))"

definition handleCommandSubmit :: "service \<Rightarrow> int \<Rightarrow> tutor_app \<Rightarrow> tutor_app" where
  "handleCommandSubmit sv totalQuestions a =
     (if isLoading a then a
      else (case submitCommand sv (learnerCommandInput a) (currentPhase (tutorStateRef a)) of
              None \<Rightarrow> a
            | Some c \<Rightarrow> (fetchGeminiResponse sv totalQuestions a None (Some c))\<lparr>learnerCommandInput := []\<rparr>))"

definition handleExit :: "service \<Rightarrow> int \<Rightarrow> tutor_app \<Rightarrow> tutor_app" where
  "handleExit sv totalQuestions a =
     (if isLoading a then a
      else (fetchGeminiResponse sv totalQuestions a None (Some (js ''exit'')))\<lparr>learnerCommandInput := []\<rparr>)"

section \<open>Sessions, turns and the vocabulary of the properties\<close>

text \<open>
  What \<^verbatim>\<open>processTutorTurn\<close> copies into the refs from the outcome of
  \<^verbatim>\<open>sendMessage\<close>: phase, question index and score of a resolved response, and
  nothing when the promise rejects.
\<close>

definition committed :: "failure + TutorResponse \<Rightarrow> (tutor_phase \<times> int \<times> int) option" where
  "committed res =
     (case res of Inl _ \<Rightarrow> None | Inr r \<Rightarrow> Some (phase r, q (state r), score (state r)))"

text \<open>The session held in the three refs of \<^verbatim>\<open>App.tsx\<close>.\<close>

definition session :: "app \<Rightarrow> tutor_phase \<times> int \<times> int" where
  "session a = (currentPhaseRef a, currentQRef a, currentScoreRef a)"

text \<open>
  Three environments: a model that always answers, one that never does, and a client
  that cannot be built.
\<close>

definition online :: env where
  "online = \<lparr>client = Some (\<lambda>p. Some ''Bien !''), dialogs_complete = True\<rparr>"

definition offline :: env where
  "offline = \<lparr>client = Some (\<lambda>p. None), dialogs_complete = True\<rparr>"

definition unbuilt :: env where
  "unbuilt = \<lparr>client = None, dialogs_complete = True\<rparr>"

text \<open>The invariant of the sessions, phase by phase.\<close>

fun session_inv :: "tutor_phase \<Rightarrow> int \<Rightarrow> int \<Rightarrow> bool" where
  "session_inv Intro qi sc = (qi = 0 \<and> sc = 0)"
| "session_inv Teach qi sc = (qi = 0 \<and> sc = 0)"
| "session_inv Ask qi sc = (0 \<le> qi \<and> qi < 5 \<and> 0 \<le> sc \<and> sc \<le> qi)"
| "session_inv Evaluate qi sc = (0 \<le> qi \<and> qi < 5 \<and> 0 \<le> sc \<and> sc \<le> qi + 1)"
| "session_inv Report qi sc = (qi = 5 \<and> 0 \<le> sc \<and> sc \<le> 5)"
| "session_inv Completed qi sc = (qi = 5 \<and> 0 \<le> sc \<and> sc \<le> 5)"

text \<open>
  The states of the \<^verbatim>\<open>App.tsx\<close> component under any calls of its handlers:
  the initial one, the one after the first load, and those reached by selecting any
  choice or by \<^verbatim>\<open>handleAction\<close> with any argument.
\<close>

inductive_set app_states :: "app set" where
  init: "initial_app \<in> app_states"
| mount: "processTutorTurn e initial_app Intro 0 0 None \<in> app_states"
| select: "a \<in> app_states \<Longrightarrow> a\<lparr>selectedChoiceId := Some i\<rparr> \<in> app_states"
| action: "a \<in> app_states \<Longrightarrow> handleAction e a actionInput \<in> app_states"

text \<open>
  The states that the learner can bring about: the first load, then only the buttons
  that \<^verbatim>\<open>renderContent\<close> shows and enables, with any behaviour of the model.
\<close>

inductive_set ui_states :: "app set" where
  ui_init: "initial_app \<in> ui_states"
| ui_mount: "processTutorTurn e initial_app Intro 0 0 None \<in> ui_states"
| ui_choose: "a \<in> ui_states \<Longrightarrow> choice_enabled a i \<Longrightarrow>
              a\<lparr>selectedChoiceId := Some i\<rparr> \<in> ui_states"
| ui_action: "a \<in> ui_states \<Longrightarrow> action_enabled a actionInput \<Longrightarrow>
              handleAction e a actionInput \<in> ui_states"

text \<open>What holds in every state the learner can bring about.\<close>

definition ui_inv :: "app \<Rightarrow> bool" where
  "ui_inv a =
     (currentScoreRef a = 0
      \<and> session_inv (currentPhaseRef a) (currentQRef a) 0
      \<and> (\<forall>r. tutorResponse a = Some r \<longrightarrow> phase r = currentPhaseRef a)
      \<and> (currentPhaseRef a = Completed \<longrightarrow> error a = None \<and> tutorResponse a \<noteq> None))"

text \<open>
  The progress formula in the words of the specification: 0 for Intro, 10 for Teach,
  \<open>10 + round (questionIndex / totalQuestions * 90)\<close> for Ask and Evaluate, 100 for
  Report and Completed. Rounding to the nearest integer, halves upwards, is written with
  integer division.
\<close>

definition spec_progress :: "tutor_phase \<Rightarrow> int \<Rightarrow> int \<Rightarrow> int" where
  "spec_progress ph questionIndex totalQuestions =
     (case ph of
        Intro \<Rightarrow> 0
      | Teach \<Rightarrow> 10
      | Ask \<Rightarrow> 10 + (2 * questionIndex * 90 + totalQuestions) div (2 * totalQuestions)
      | Evaluate \<Rightarrow> 10 + (2 * questionIndex * 90 + totalQuestions) div (2 * totalQuestions)
      | Report \<Rightarrow> 100
      | Completed \<Rightarrow> 100)"

text \<open>
  States of the component on the learner's way: after a first load that succeeded (phase
  Teach); after a first load whose generation failed and the button Start Lesson (phase
  Ask, first question shown); the same with the second choice selected; and that state
  after Submit Answer was pressed while the client could not be built (the error is
  shown, with its Retry button).
\<close>

definition loaded :: app where
  "loaded = processTutorTurn online initial_app Intro 0 0 None"

definition asking :: app where
  "asking = handleAction offline (processTutorTurn offline initial_app Intro 0 0 None) None"

definition answering_one :: app where
  "answering_one = asking\<lparr>selectedChoiceId := Some 1\<rparr>"

definition submit_rejected :: app where
  "submit_rejected = handleAction unbuilt answering_one (Some 1)"

text \<open>
  The shape that the specification requires of a response, by its phase: in phase Ask
  three or four options and a correct answer id that is the id of one of them; in the
  phases Teach, Report and Evaluate neither options nor a correct answer id.
\<close>

definition spec_valid_response :: "PhaseResponse \<Rightarrow> bool" where
  "spec_valid_response r =
     (case resp_phase r of
        PAsk \<Rightarrow>
          (case (options (interface r), correct_answer_id r) of
             (Some os, Some c) \<Rightarrow> 3 \<le> length os \<and> length os \<le> 4 \<and> c \<in> set (map option_id os)
           | _ \<Rightarrow> False)
      | PTeach \<Rightarrow> correct_answer_id r = None \<and> options (interface r) = None
      | PReport \<Rightarrow> correct_answer_id r = None \<and> options (interface r) = None
      | PEvaluate \<Rightarrow> correct_answer_id r = None \<and> options (interface r) = None
      | _ \<Rightarrow> True)"

text \<open>
  Services for the examples: one whose model answers with a text that parses to a given
  response, one whose answer parses to a value without a state, and one whose requests
  fail.
\<close>

definition answering :: "PhaseResponse \<Rightarrow> service" where
  "answering r =
     \<lparr>connect = Inr (\<lambda>p. Answer (Some (js ''{}''))), JSON_parse = (\<lambda>s. Inr (Shaped r)),
      toLowerCase = asciiLowerCase\<rparr>"

definition stateless :: service where
  "stateless =
     \<lparr>connect = Inr (\<lambda>p. Answer (Some (js ''{}''))),
      JSON_parse =
        (\<lambda>s. Inr (Unreadable ''Cannot read properties of undefined (reading 'question_index')'')),
      toLowerCase = asciiLowerCase\<rparr>"

definition unavailable :: service where
  "unavailable =
     \<lparr>connect = Inr (\<lambda>p. Throws ''Failed to fetch''),
      JSON_parse = (\<lambda>s. Inl ''Unexpected end of JSON input''),
      toLowerCase = asciiLowerCase\<rparr>"

text \<open>A question with a single option and no correct answer id.\<close>

definition one_option_question :: PhaseResponse where
  "one_option_question =
     \<lparr>resp_phase = PAsk,
      resp_state = \<lparr>question_index = 0, state_score = 0\<rparr>,
      interface =
        \<lparr>title = ''Question 1'', content = ''Which French word means 'Thank you'?'',
         instructions = ''Select the correct answer.'', input_type = MultipleChoiceInput,
         options = Some [\<lparr>option_id = 0, option_label = ''Merci''\<rparr>], progress = 10\<rparr>,
      correct_answer_id = None\<rparr>"

text \<open>A response that goes on with the quiz and rewrites index and score.\<close>

definition wayward_answer :: PhaseResponse where
  "wayward_answer =
     \<lparr>resp_phase = PAsk,
      resp_state = \<lparr>question_index = 3, state_score = 7\<rparr>,
      interface =
        \<lparr>title = ''Question 4'', content = ''What does 'Merci' mean?'',
         instructions = ''Select the correct answer.'', input_type = MultipleChoiceInput,
         options = None, progress = 70\<rparr>,
      correct_answer_id = None\<rparr>"

text \<open>The welcome of a lesson, and the generative tutor after a first load that shows it.\<close>

definition welcome_page :: PhaseResponse where
  "welcome_page =
     \<lparr>resp_phase = PIntro,
      resp_state = \<lparr>question_index = 0, state_score = 0\<rparr>,
      interface =
        \<lparr>title = ''Bienvenue'', content = ''Welcome to your beginner French lesson!'',
         instructions = ''Click Continue to begin.'', input_type = NoInput,
         options = None, progress = 0\<rparr>,
      correct_answer_id = None\<rparr>"

definition started :: tutor_app where
  "started = fetchGeminiResponse (answering welcome_page) 5 initial_tutor_app None None"

text \<open>The generative tutor in the middle of a lesson: second question, one point.\<close>

definition in_lesson :: tutor_app where
  "in_lesson =
     \<lparr>phaseResponse = None, isLoading = False, fetch_error = None, learnerCommandInput = [],
      tutorStateRef =
        \<lparr>ref_question_index = 1, ref_score = 1, currentPhase = PAsk,
         ref_correctAnswerId = Some 2, selectedOptionLabel = None\<rparr>,
      sent = []\<rparr>"

text \<open>The generative tutor in that lesson with a text in the input field, in a given phase.\<close>

definition typed_in :: "jsstring \<Rightarrow> Phase \<Rightarrow> tutor_app" where
  "typed_in t ph =
     in_lesson\<lparr>learnerCommandInput := t,
               tutorStateRef := (tutorStateRef in_lesson)\<lparr>currentPhase := ph\<rparr>\<rparr>"

section \<open>Basic facts\<close>

lemma length_QUESTIONS: "length QUESTIONS = 5"
  by (simp add: QUESTIONS_def)

text \<open>Every committed outcome of a turn, by the phase the turn was run in.\<close>

lemma sendMessage_cases:
  assumes "committed (sendMessage e ph qi sc u) = Some (ph', qi', sc')"
  shows "(ph' = ph \<and> qi' = qi \<and> sc' = sc)
       \<or> (ph = Intro \<and> ph' = Teach \<and> qi' = qi \<and> sc' = sc)
       \<or> (ph = Teach \<and> ph' = Ask \<and> qi' = 0 \<and> sc' = sc)
       \<or> (ph = Ask \<and> 0 \<le> qi \<and> qi < 5 \<and> ph' = Evaluate \<and> qi' = qi
            \<and> (sc' = sc \<or> (u \<noteq> None \<and> sc' = sc + 1)))
       \<or> (ph = Evaluate \<and> 0 \<le> qi + 1 \<and> qi + 1 < 5 \<and> ph' = Ask \<and> qi' = qi + 1 \<and> sc' = sc)
       \<or> (ph = Evaluate \<and> 5 \<le> qi + 1 \<and> ph' = Report \<and> qi' = qi + 1 \<and> sc' = sc)
       \<or> (ph = Report \<and> ph' = Completed \<and> qi' = qi \<and> sc' = sc)"
  using assms
  by (cases ph)
     (auto simp add: committed_def sendMessage_def sendMessage_try_def respond_def fallback_def
        questionAt_def length_QUESTIONS Let_def split: option.splits if_splits sum.splits)

lemma session_inv_step:
  assumes "session_inv ph qi sc"
    and "committed (sendMessage e ph qi sc u) = Some (ph', qi', sc')"
  shows "session_inv ph' qi' sc'"
  using sendMessage_cases [OF assms(2)] assms(1)
  by (cases ph) auto

text \<open>Only a turn run in phase Ask with a selection can change the score.\<close>

lemma turn_keeps_score:
  assumes "committed (sendMessage e ph qi sc u) = Some (ph', qi', sc')"
    and "u = None \<or> ph \<noteq> Ask"
  shows "sc' = sc"
  using sendMessage_cases [OF assms(1)] assms(2) by auto

lemma handleAction_next_inv:
  assumes "session_inv ph qi sc" and "handleAction_next ph qi sc = (ph', qi', sc')"
  shows "session_inv ph' qi' sc' \<and> sc' = sc \<and> qi \<le> qi'"
  using assms by (cases ph) (auto simp add: handleAction_next_def Let_def split: if_splits)

lemma handleAction_next_phase:
  assumes "handleAction_next ph qi sc = (ph', qi', sc')"
  shows "(ph = Ask \<longleftrightarrow> ph' = Evaluate) \<and> (ph \<noteq> Completed \<longrightarrow> ph' \<noteq> ph)"
  using assms by (cases ph) (auto simp add: handleAction_next_def Let_def split: if_splits)

text \<open>The two outcomes of \<^verbatim>\<open>processTutorTurn\<close>.\<close>

lemma processTutorTurn_cases:
  "(committed (sendMessage e ph qi sc u) = None
      \<and> processTutorTurn e a ph qi sc u =
          a\<lparr>loading := False, error := Some ''Failed to load tutor content. Please try again.''\<rparr>)
   \<or> (\<exists>r. sendMessage e ph qi sc u = Inr r
        \<and> committed (sendMessage e ph qi sc u) = Some (phase r, q (state r), score (state r))
        \<and> processTutorTurn e a ph qi sc u =
            a\<lparr>tutorResponse := Some r, loading := False, error := None,
              selectedChoiceId := None, currentPhaseRef := phase r,
              currentQRef := q (state r), currentScoreRef := score (state r)\<rparr>)"
  by (cases "sendMessage e ph qi sc u") (simp_all add: processTutorTurn_def committed_def)

text \<open>What \<^verbatim>\<open>handleAction\<close> does with a response loaded, outside phase Completed.\<close>

lemma handleAction_turn:
  assumes "tutorResponse a \<noteq> None" and "currentPhaseRef a \<noteq> Completed"
    and "\<not> (currentPhaseRef a = Ask \<and> u = None)"
    and "handleAction_next (currentPhaseRef a) (currentQRef a) (currentScoreRef a) = (ph', qi', sc')"
  shows "handleAction e a u = processTutorTurn e a ph' qi' sc' u"
  using assms by (auto simp add: handleAction_def)

text \<open>The invariant of the states the learner can bring about.\<close>

lemma ui_inv_processTutorTurn:
  assumes inv: "ui_inv a" and notc: "currentPhaseRef a \<noteq> Completed"
    and nx: "handleAction_next (currentPhaseRef a) (currentQRef a) (currentScoreRef a) = (ph', qi', sc')"
    and noscore: "u = None \<or> ph' \<noteq> Ask"
  shows "ui_inv (processTutorTurn e a ph' qi' sc' u)
       \<and> currentQRef a \<le> currentQRef (processTutorTurn e a ph' qi' sc' u)"
proof -
  have zero: "currentScoreRef a = 0" using inv by (simp add: ui_inv_def)
  have "session_inv (currentPhaseRef a) (currentQRef a) 0" using inv by (simp add: ui_inv_def)
  then have sinv: "session_inv (currentPhaseRef a) (currentQRef a) (currentScoreRef a)"
    using zero by simp
  from handleAction_next_inv [OF sinv nx]
  have inv': "session_inv ph' qi' sc'" and sc': "sc' = 0" and le: "currentQRef a \<le> qi'"
    using zero by auto
  from processTutorTurn_cases [of e ph' qi' sc' u a]
  show ?thesis
  proof
    assume "committed (sendMessage e ph' qi' sc' u) = None
      \<and> processTutorTurn e a ph' qi' sc' u =
          a\<lparr>loading := False, error := Some ''Failed to load tutor content. Please try again.''\<rparr>"
    then show ?thesis using inv notc by (simp add: ui_inv_def)
  next
    assume "\<exists>r. sendMessage e ph' qi' sc' u = Inr r
        \<and> committed (sendMessage e ph' qi' sc' u) = Some (phase r, q (state r), score (state r))
        \<and> processTutorTurn e a ph' qi' sc' u =
            a\<lparr>tutorResponse := Some r, loading := False, error := None,
              selectedChoiceId := None, currentPhaseRef := phase r,
              currentQRef := q (state r), currentScoreRef := score (state r)\<rparr>"
    then obtain r where c: "committed (sendMessage e ph' qi' sc' u) = Some (phase r, q (state r), score (state r))"
      and p: "processTutorTurn e a ph' qi' sc' u =
            a\<lparr>tutorResponse := Some r, loading := False, error := None,
              selectedChoiceId := None, currentPhaseRef := phase r,
              currentQRef := q (state r), currentScoreRef := score (state r)\<rparr>"
      by blast
    have s1: "session_inv (phase r) (q (state r)) (score (state r))"
      using session_inv_step [OF inv' c] .
    have s2: "score (state r) = 0"
      using turn_keeps_score [OF c noscore] sc' by simp
    have s3: "qi' \<le> q (state r)"
      using sendMessage_cases [OF c] inv' by (cases ph') auto
    from s1 s2 s3 le show ?thesis unfolding p by (simp add: ui_inv_def)
  qed
qed

lemma ui_inv_action:
  assumes inv: "ui_inv a" and en: "action_enabled a u"
  shows "ui_inv (handleAction e a u) \<and> currentQRef a \<le> currentQRef (handleAction e a u)"
proof (cases "tutorResponse a")
  case None
  then show ?thesis using inv by (simp add: handleAction_def)
next
  case (Some r)
  have ph: "phase r = currentPhaseRef a" using inv Some by (simp add: ui_inv_def)
  have notc: "currentPhaseRef a \<noteq> Completed"
    using inv en Some ph by (auto simp add: ui_inv_def action_enabled_def split: if_splits)
  show ?thesis
  proof (cases "currentPhaseRef a = Ask \<and> u = None")
    case True
    then have "handleAction e a u = a\<lparr>error := Some ''Please select an answer.''\<rparr>"
      using Some by (simp add: handleAction_def)
    then show ?thesis using inv notc by (simp add: ui_inv_def)
  next
    case False
    obtain ph' qi' sc' where nx:
      "handleAction_next (currentPhaseRef a) (currentQRef a) (currentScoreRef a) = (ph', qi', sc')"
      by (cases "handleAction_next (currentPhaseRef a) (currentQRef a) (currentScoreRef a)") auto
    have h: "handleAction e a u = processTutorTurn e a ph' qi' sc' u"
      using handleAction_turn [OF _ notc False nx] Some by simp
    have "u = None \<or> currentPhaseRef a = Ask"
      using en Some ph by (auto simp add: action_enabled_def split: if_splits tutor_phase.splits)
    then have "u = None \<or> ph' \<noteq> Ask"
      using handleAction_next_phase [OF nx] by auto
    from ui_inv_processTutorTurn [OF inv notc nx this] show ?thesis unfolding h .
  qed
qed

lemma ui_states_inv: "a \<in> ui_states \<Longrightarrow> ui_inv a"
proof (induction rule: ui_states.induct)
  case ui_init
  show ?case by (simp add: ui_inv_def initial_app_def)
next
  case (ui_mount e)
  from processTutorTurn_cases [of e Intro 0 0 None initial_app]
  show ?case
  proof
    assume "committed (sendMessage e Intro 0 0 None) = None
      \<and> processTutorTurn e initial_app Intro 0 0 None =
          initial_app\<lparr>loading := False, error := Some ''Failed to load tutor content. Please try again.''\<rparr>"
    then show ?thesis by (simp add: ui_inv_def initial_app_def)
  next
    assume "\<exists>r. sendMessage e Intro 0 0 None = Inr r
        \<and> committed (sendMessage e Intro 0 0 None) = Some (phase r, q (state r), score (state r))
        \<and> processTutorTurn e initial_app Intro 0 0 None =
            initial_app\<lparr>tutorResponse := Some r, loading := False, error := None,
              selectedChoiceId := None, currentPhaseRef := phase r,
              currentQRef := q (state r), currentScoreRef := score (state r)\<rparr>"
    then obtain r where c: "committed (sendMessage e Intro 0 0 None) = Some (phase r, q (state r), score (state r))"
      and p: "processTutorTurn e initial_app Intro 0 0 None =
            initial_app\<lparr>tutorResponse := Some r, loading := False, error := None,
              selectedChoiceId := None, currentPhaseRef := phase r,
              currentQRef := q (state r), currentScoreRef := score (state r)\<rparr>"
      by blast
    have start: "session_inv Intro 0 0" by simp
    have "session_inv (phase r) (q (state r)) (score (state r))"
      using session_inv_step [OF start c] .
    moreover have "score (state r) = 0"
      using turn_keeps_score [OF c] by simp
    ultimately show ?thesis unfolding p by (simp add: ui_inv_def)
  qed
next
  case (ui_choose a i)
  then show ?case by (simp add: ui_inv_def)
next
  case (ui_action a actionInput e)
  then show ?case using ui_inv_action by blast
qed

text \<open>The states of the examples.\<close>

lemma loaded_facts:
  "loaded \<in> ui_states \<and> session loaded = (Teach, 0, 0) \<and> tutorResponse loaded \<noteq> None
   \<and> action_enabled loaded None"
proof -
  have "loaded \<in> ui_states" unfolding loaded_def by (rule ui_states.ui_mount)
  moreover have "session loaded = (Teach, 0, 0) \<and> tutorResponse loaded \<noteq> None
      \<and> action_enabled loaded None"
    by (simp add: loaded_def session_def action_enabled_def processTutorTurn_def sendMessage_def
        sendMessage_try_def online_def initial_app_def respond_def)
  ultimately show ?thesis by simp
qed

lemma first_load_failed:
  "processTutorTurn offline initial_app Intro 0 0 None =
     initial_app\<lparr>tutorResponse := Some (fallback Intro 0 0)\<rparr>"
  by (simp add: processTutorTurn_def sendMessage_def sendMessage_try_def offline_def
      initial_app_def fallback_def)

lemma asking_eq:
  "asking =
     initial_app
       \<lparr>tutorResponse :=
          Some (respond Ask 0 0 ScreenQuestion (question (QUESTIONS ! 0))
                  (question_choices (QUESTIONS ! 0)) MultipleChoice),
        currentPhaseRef := Ask\<rparr>"
  unfolding asking_def first_load_failed
  by (simp add: handleAction_def handleAction_next_def
      processTutorTurn_def sendMessage_def sendMessage_try_def offline_def initial_app_def
      fallback_def respond_def questionAt_def length_QUESTIONS)

lemma asking_facts:
  "asking \<in> ui_states \<and> asking \<in> app_states \<and> session asking = (Ask, 0, 0)
   \<and> choice_enabled asking 1"
proof -
  have en: "action_enabled (processTutorTurn offline initial_app Intro 0 0 None) None"
    unfolding first_load_failed by (simp add: action_enabled_def initial_app_def fallback_def)
  have "asking \<in> ui_states"
    unfolding asking_def by (rule ui_states.ui_action [OF ui_states.ui_mount en])
  moreover have "asking \<in> app_states"
    unfolding asking_def by (rule app_states.action [OF app_states.mount])
  moreover have "session asking = (Ask, 0, 0)"
    by (simp add: asking_eq session_def initial_app_def)
  moreover have "choice_enabled asking 1"
    by (simp add: asking_eq choice_enabled_def initial_app_def respond_def QUESTIONS_def
        mkChoice_def)
  ultimately show ?thesis by simp
qed

lemma submit_rejected_eq:
  "submit_rejected =
     asking\<lparr>selectedChoiceId := Some 1,
             error := Some ''Failed to load tutor content. Please try again.''\<rparr>"
  by (simp add: submit_rejected_def answering_one_def asking_eq handleAction_def
      handleAction_next_def processTutorTurn_def sendMessage_def unbuilt_def initial_app_def)

lemma submit_rejected_facts:
  "submit_rejected \<in> ui_states \<and> submit_rejected \<in> app_states
   \<and> session submit_rejected = (Ask, 0, 0) \<and> action_enabled submit_rejected None"
proof -
  have one: "answering_one \<in> ui_states"
    unfolding answering_one_def using asking_facts by (simp add: ui_states.ui_choose)
  have en: "action_enabled answering_one (Some 1)"
    by (simp add: answering_one_def asking_eq action_enabled_def initial_app_def respond_def)
  have "submit_rejected \<in> ui_states"
    unfolding submit_rejected_def by (rule ui_states.ui_action [OF one en])
  moreover have "submit_rejected \<in> app_states"
    unfolding submit_rejected_def answering_one_def
    using asking_facts by (simp add: app_states.select app_states.action)
  moreover have "session submit_rejected = (Ask, 0, 0) \<and> action_enabled submit_rejected None"
    by (simp add: submit_rejected_eq asking_eq session_def action_enabled_def initial_app_def)
  ultimately show ?thesis by simp
qed

text \<open>Outside phase Intro the component always holds a response.\<close>

lemma app_states_loaded:
  "a \<in> app_states \<Longrightarrow> currentPhaseRef a \<noteq> Intro \<Longrightarrow> tutorResponse a \<noteq> None"
proof (induction rule: app_states.induct)
  case init
  then show ?case by (simp add: initial_app_def)
next
  case (mount e)
  then show ?case by (auto simp add: processTutorTurn_def initial_app_def split: sum.splits)
next
  case (select a i)
  then show ?case by simp
next
  case (action a e actionInput)
  then show ?case
    by (auto simp add: handleAction_def processTutorTurn_def split: sum.splits if_splits prod.splits)
qed

text \<open>The turn run in phase Ask, and what a response commits.\<close>

lemma ask_turn_try:
  "sendMessage_try g Ask qi sc selection =
     (case questionAt qi of
        None \<Rightarrow> None
      | Some cq \<Rightarrow>
          if selection = Some (correctAnswerId cq)
          then map_option (\<lambda>t. respond Evaluate qi (sc + 1) ScreenFeedback t [] InputNone)
                 (g (CorrectPrompt (question cq) (choiceLabel (question_choices cq) selection)))
          else map_option (\<lambda>t. respond Evaluate qi sc ScreenFeedback t [] InputNone)
                 (g (IncorrectPrompt (question cq) (correctAnswerLabel cq))))"
  by (simp add: sendMessage_try_def split: option.splits)

lemma committed_respond:
  "committed (Inr (respond ph qi sc scr t cs inp)) = Some (ph, qi, sc)"
  by (simp add: committed_def respond_def)

lemma committed_fallback: "committed (Inr (fallback ph qi sc)) = Some (ph, qi, sc)"
  by (simp add: committed_def fallback_def)

lemma committed_Inl: "committed (Inl f) = None"
  by (simp add: committed_def)

lemma ask_turn_committed:
  assumes "committed (sendMessage e Ask qi sc selection) = Some (ph', qi', sc')"
  shows "(ph' = Ask \<and> qi' = qi \<and> sc' = sc)
       \<or> (ph' = Evaluate \<and> qi' = qi
           \<and> (\<exists>cq. questionAt qi = Some cq
                 \<and> sc' = (if selection = Some (correctAnswerId cq) then sc + 1 else sc)))"
proof (cases "client e")
  case None
  with assms show ?thesis by (simp add: sendMessage_def committed_Inl)
next
  case built: (Some g)
  show ?thesis
  proof (cases "sendMessage_try g Ask qi sc selection")
    case None
    with built assms show ?thesis
      by (simp add: sendMessage_def committed_Inl committed_fallback split: if_splits)
  next
    case (Some r)
    then obtain cq where cq: "questionAt qi = Some cq"
      by (auto simp add: ask_turn_try split: option.splits)
    from Some cq obtain t where
      "r = respond Evaluate qi (if selection = Some (correctAnswerId cq) then sc + 1 else sc)
             ScreenFeedback t [] InputNone"
      by (auto simp add: ask_turn_try split: if_splits)
    with Some built assms cq show ?thesis
      by (simp add: sendMessage_def committed_respond)
  qed
qed

text \<open>The requests and the session of a fetch are those of its one call.\<close>

lemma snd_callGemini:
  "snd (callGemini sv T ph st c l inp) =
     (case connect sv of Inl m \<Rightarrow> [] | Inr g \<Rightarrow> [buildGeminiPrompt ph st c l inp T])"
  by (simp add: callGemini_def Let_def split: sum.splits)

lemma sent_fetchGeminiResponse:
  "sent (fetchGeminiResponse sv T b c inp) =
     sent b @ snd (callGemini sv T (currentPhase (tutorStateRef b))
                  \<lparr>question_index = ref_question_index (tutorStateRef b),
                   state_score = ref_score (tutorStateRef b)\<rparr>
                  c (selectedOptionLabel (tutorStateRef b)) inp)"
  by (simp add: fetchGeminiResponse_def Let_def split: prod.splits sum.splits parsed.splits)

lemma ref_fetchGeminiResponse:
  "tutorStateRef (fetchGeminiResponse sv T b c inp) =
     (case fst (callGemini sv T (currentPhase (tutorStateRef b))
                  \<lparr>question_index = ref_question_index (tutorStateRef b),
                   state_score = ref_score (tutorStateRef b)\<rparr>
                  c (selectedOptionLabel (tutorStateRef b)) inp) of
        Inr (Shaped r) \<Rightarrow>
          (tutorStateRef b)
            \<lparr>currentPhase := resp_phase r,
             ref_question_index := question_index (resp_state r),
             ref_score := state_score (resp_state r),
             ref_correctAnswerId := correct_answer_id r,
             selectedOptionLabel := None\<rparr>
      | Inr (Unreadable m) \<Rightarrow> tutorStateRef b
      | Inl m \<Rightarrow> tutorStateRef b)"
  by (simp add: fetchGeminiResponse_def Let_def split: prod.splits sum.splits parsed.splits)

lemma error_fetchGeminiResponse:
  "fetch_error (fetchGeminiResponse sv T b c inp) =
     (case fst (callGemini sv T (currentPhase (tutorStateRef b))
                  \<lparr>question_index = ref_question_index (tutorStateRef b),
                   state_score = ref_score (tutorStateRef b)\<rparr>
                  c (selectedOptionLabel (tutorStateRef b)) inp) of
        Inr (Shaped r) \<Rightarrow> None
      | Inr (Unreadable m) \<Rightarrow> Some m
      | Inl m \<Rightarrow> Some m)"
  by (simp add: fetchGeminiResponse_def Let_def split: prod.splits sum.splits parsed.splits)

lemma started_eq:
  "tutorStateRef started =
     \<lparr>ref_question_index = 0, ref_score = 0, currentPhase = PIntro,
      ref_correctAnswerId = None, selectedOptionLabel = None\<rparr>
   \<and> \<not> isLoading started"
  by (simp add: started_def fetchGeminiResponse_def callGemini_def answering_def welcome_page_def
      initial_tutor_app_def js_def trim_def isWhiteSpace_def cleanJson_def startsWith_def
      fence_def Let_def)

section \<open>C1: the turn run in phase Evaluate\<close>

text \<open>
  C1, as the specification states it: the turn run in phase Evaluate adds one point to
  the score when the previous answer was correct, and the point is not added earlier.
  In the code the point is added by the turn run in phase Ask: after the correct answer
  to the first question the session is (Evaluate, 0, 1), and the turn run in phase
  Evaluate leaves the score at 1.
\<close>

theorem evaluate_step_adds_no_point:
  "committed (sendMessage online Ask 0 0 (Some 1)) = Some (Evaluate, 0, 1)
   \<and> committed (sendMessage online Evaluate 0 1 None) = Some (Ask, 1, 1)
   \<and> committed (sendMessage online Evaluate 0 1 None) \<noteq> Some (Ask, 1, 1 + 1)"
  by (simp add: committed_def sendMessage_def sendMessage_try_def online_def respond_def
        questionAt_def QUESTIONS_def)

text \<open>
  C1, amended: a call of \<^verbatim>\<open>sendMessage\<close> with current phase Evaluate never
  changes the score. It rejects, or returns the phase, question index and score it was
  called with, or returns the question index incremented by 1 with next phase Ask when
  \<open>questionIndex < totalQuestions - 1\<close> and Report otherwise; and it returns the
  latter whenever the client is built, \<open>0 \<le> questionIndex\<close> and, from the last
  question on, the report text is generated. The point is added earlier: a call with
  current phase Ask that returns phase Evaluate returns the same question index, and the
  score plus 1 exactly when the selection is the correct answer id of the current
  question.
\<close>

theorem evaluate_step:
  "(committed (sendMessage e Evaluate qi sc userInput) = None
      \<or> committed (sendMessage e Evaluate qi sc userInput) = Some (Evaluate, qi, sc)
      \<or> committed (sendMessage e Evaluate qi sc userInput) =
           Some (if qi < int (length QUESTIONS) - 1 then Ask else Report, qi + 1, sc))
   \<and> (client e = Some generateContent \<and> 0 \<le> qi
        \<and> (int (length QUESTIONS) - 1 \<le> qi \<longrightarrow>
              generateContent (ReportPrompt sc (length QUESTIONS)) \<noteq> None)
      \<longrightarrow> committed (sendMessage e Evaluate qi sc userInput) =
            Some (if qi < int (length QUESTIONS) - 1 then Ask else Report, qi + 1, sc))
   \<and> (committed (sendMessage e' Ask qi sc selection) = Some (Evaluate, qi', sc')
      \<longrightarrow> qi' = qi
          \<and> (\<exists>currentQuestion. questionAt qi = Some currentQuestion
                \<and> sc' = (if selection = Some (correctAnswerId currentQuestion)
                         then sc + 1 else sc)))"
proof -
  have total: "committed (sendMessage e Evaluate qi sc userInput) = None
      \<or> committed (sendMessage e Evaluate qi sc userInput) = Some (Evaluate, qi, sc)
      \<or> committed (sendMessage e Evaluate qi sc userInput) =
           Some (if qi < int (length QUESTIONS) - 1 then Ask else Report, qi + 1, sc)"
  proof (cases "committed (sendMessage e Evaluate qi sc userInput)")
    case None
    then show ?thesis by simp
  next
    case (Some s)
    obtain ph' qi' sc' where s: "s = (ph', qi', sc')" by (cases s) auto
    from sendMessage_cases [of e Evaluate qi sc userInput ph' qi' sc'] Some s
    show ?thesis by (auto simp add: length_QUESTIONS)
  qed
  have success: "committed (sendMessage e Evaluate qi sc userInput) =
            Some (if qi < int (length QUESTIONS) - 1 then Ask else Report, qi + 1, sc)"
    if "client e = Some generateContent" "0 \<le> qi"
      "int (length QUESTIONS) - 1 \<le> qi \<longrightarrow>
         generateContent (ReportPrompt sc (length QUESTIONS)) \<noteq> None"
    using that
    by (auto simp add: committed_def sendMessage_def sendMessage_try_def respond_def
        questionAt_def length_QUESTIONS Let_def split: option.splits)
  have earlier: "qi' = qi
          \<and> (\<exists>currentQuestion. questionAt qi = Some currentQuestion
                \<and> sc' = (if selection = Some (correctAnswerId currentQuestion)
                         then sc + 1 else sc))"
    if "committed (sendMessage e' Ask qi sc selection) = Some (Evaluate, qi', sc')"
    using ask_turn_committed [OF that] by auto
  from total success earlier show ?thesis by blast
qed

theorem evaluate_step_witness:
  "client online \<noteq> None \<and> (0::int) \<le> 4
   \<and> committed (sendMessage online Evaluate 4 3 None) = Some (Report, 5, 3)
   \<and> committed (sendMessage online Evaluate 2 1 None) = Some (Ask, 3, 1)
   \<and> committed (sendMessage online Ask 0 0 (Some 1)) = Some (Evaluate, 0, 1)
   \<and> (\<exists>currentQuestion. questionAt 0 = Some currentQuestion
         \<and> correctAnswerId currentQuestion = 1)"
proof -
  have ask: "committed (sendMessage online Ask 0 0 (Some 1)) = Some (Evaluate, 0, 1)"
    by (simp add: sendMessage_def online_def ask_turn_try questionAt_def QUESTIONS_def
        committed_respond)
  have "\<exists>currentQuestion. questionAt 0 = Some currentQuestion
         \<and> (1::int) = (if Some 1 = Some (correctAnswerId currentQuestion) then 0 + 1 else 0)"
    using evaluate_step [where e' = online and qi = 0 and sc = 0 and selection = "Some 1"
        and qi' = 0 and sc' = 1 and e = online and userInput = None
        and generateContent = "\<lambda>p. Some ''Bien !''"] ask
    by simp
  then have correct: "\<exists>currentQuestion. questionAt 0 = Some currentQuestion
         \<and> correctAnswerId currentQuestion = 1"
    by (auto split: if_splits)
  have report: "committed (sendMessage online Evaluate 4 3 None) = Some (Report, 5, 3)"
    using evaluate_step [where e = online and qi = 4 and sc = 3 and userInput = None
        and generateContent = "\<lambda>p. Some ''Bien !''" and e' = online and selection = None
        and qi' = 0 and sc' = 0]
    by (simp add: online_def length_QUESTIONS)
  have next_q: "committed (sendMessage online Evaluate 2 1 None) = Some (Ask, 3, 1)"
    using evaluate_step [where e = online and qi = 2 and sc = 1 and userInput = None
        and generateContent = "\<lambda>p. Some ''Bien !''" and e' = online and selection = None
        and qi' = 0 and sc' = 0]
    by (simp add: online_def length_QUESTIONS)
  from ask correct report next_q show ?thesis by (simp add: online_def)
qed

section \<open>C2: bounds of the session\<close>

text \<open>
  C2, as the specification states it: every state reached by turns without commands has
  \<open>0 \<le> questionIndex \<le> totalQuestions\<close> and \<open>0 \<le> score \<le> questionIndex\<close>.
  In the generative tutor the session takes index and score from each response: after
  the welcome, one press of Continue whose response says index 3 and score 7 leaves the
  session with a score above the index and above the five questions.
\<close>

theorem response_sets_score_above_index:
  "\<not> isLoading started
   \<and> ref_question_index (tutorStateRef started) = 0
   \<and> ref_score (tutorStateRef started) = 0
   \<and> ref_question_index (tutorStateRef (handleContinue (answering wayward_answer) 5 started)) = 3
   \<and> ref_score (tutorStateRef (handleContinue (answering wayward_answer) 5 started)) = 7
   \<and> \<not> ((7::int) \<le> 3) \<and> \<not> ((7::int) \<le> 5)"
proof -
  have "tutorStateRef (handleContinue (answering wayward_answer) 5 started) =
     \<lparr>ref_question_index = 3, ref_score = 7, currentPhase = PAsk,
      ref_correctAnswerId = None, selectedOptionLabel = None\<rparr>"
    using started_eq
    by (simp add: handleContinue_def Let_def ref_fetchGeminiResponse callGemini_def answering_def
        wayward_answer_def js_def trim_def isWhiteSpace_def cleanJson_def startsWith_def fence_def)
  with started_eq show ?thesis by simp
qed

text \<open>
  C2, amended. In the scripted tutor every state that the learner can bring about from
  the initial one has \<open>0 \<le> questionIndex \<le> totalQuestions\<close> and
  \<open>0 \<le> score \<le> questionIndex\<close>, no action that the screen offers lowers the question
  index, and selecting a choice leaves the session as it is. In the generative tutor
  the question index and the score after a turn whose response is read are those of the
  response.
\<close>

theorem ui_states_bounds:
  assumes "a \<in> ui_states"
  shows "0 \<le> currentQRef a \<and> currentQRef a \<le> int (length QUESTIONS)
       \<and> 0 \<le> currentScoreRef a \<and> currentScoreRef a \<le> currentQRef a
       \<and> (\<forall>e actionInput. action_enabled a actionInput \<longrightarrow>
             currentQRef a \<le> currentQRef (handleAction e a actionInput))
       \<and> (\<forall>i. choice_enabled a i \<longrightarrow> session (a\<lparr>selectedChoiceId := Some i\<rparr>) = session a)
       \<and> (fst (callGemini sv T (currentPhase (tutorStateRef b))
                  \<lparr>question_index = ref_question_index (tutorStateRef b),
                   state_score = ref_score (tutorStateRef b)\<rparr>
                  c (selectedOptionLabel (tutorStateRef b)) inp) = Inr (Shaped r)
           \<longrightarrow> ref_question_index (tutorStateRef (fetchGeminiResponse sv T b c inp))
                 = question_index (resp_state r)
               \<and> ref_score (tutorStateRef (fetchGeminiResponse sv T b c inp))
                 = state_score (resp_state r))"
proof -
  have inv: "ui_inv a" using ui_states_inv [OF assms] .
  then have zero: "currentScoreRef a = 0"
    and sinv: "session_inv (currentPhaseRef a) (currentQRef a) 0"
    by (simp_all add: ui_inv_def)
  have bounds: "0 \<le> currentQRef a \<and> currentQRef a \<le> int (length QUESTIONS)"
    using sinv by (cases "currentPhaseRef a") (auto simp add: length_QUESTIONS)
  have mono: "currentQRef a \<le> currentQRef (handleAction e a actionInput)"
    if "action_enabled a actionInput" for e actionInput
    using ui_inv_action [OF inv that] by simp
  have adopt: "ref_question_index (tutorStateRef (fetchGeminiResponse sv T b c inp))
                 = question_index (resp_state r)
               \<and> ref_score (tutorStateRef (fetchGeminiResponse sv T b c inp))
                 = state_score (resp_state r)"
    if "fst (callGemini sv T (currentPhase (tutorStateRef b))
                  \<lparr>question_index = ref_question_index (tutorStateRef b),
                   state_score = ref_score (tutorStateRef b)\<rparr>
                  c (selectedOptionLabel (tutorStateRef b)) inp) = Inr (Shaped r)"
    using that by (simp add: ref_fetchGeminiResponse)
  from bounds zero mono adopt show ?thesis by (simp add: session_def)
qed

theorem ui_states_bounds_witness:
  "asking \<in> ui_states \<and> currentQRef asking = 0 \<and> currentScoreRef asking = 0
   \<and> (0::int) \<le> int (length QUESTIONS)
   \<and> choice_enabled asking 1
   \<and> session (asking\<lparr>selectedChoiceId := Some 1\<rparr>) = (Ask, 0, 0)
   \<and> loaded \<in> ui_states \<and> action_enabled loaded None
   \<and> currentQRef loaded \<le> currentQRef (handleAction online loaded None)
   \<and> fst (callGemini (answering wayward_answer) 5 PIntro
            \<lparr>question_index = 0, state_score = 0\<rparr> None None None) = Inr (Shaped wayward_answer)
   \<and> ref_question_index
        (tutorStateRef (fetchGeminiResponse (answering wayward_answer) 5 started None None)) = 3
   \<and> ref_score
        (tutorStateRef (fetchGeminiResponse (answering wayward_answer) 5 started None None)) = 7"
proof -
  have a: "asking \<in> ui_states" using asking_facts by simp
  have l: "loaded \<in> ui_states" using loaded_facts by simp
  have st: "tutorStateRef started =
     \<lparr>ref_question_index = 0, ref_score = 0, currentPhase = PIntro,
      ref_correctAnswerId = None, selectedOptionLabel = None\<rparr>"
    using started_eq by simp
  have read: "fst (callGemini (answering wayward_answer) 5 PIntro
            \<lparr>question_index = 0, state_score = 0\<rparr> None None None) = Inr (Shaped wayward_answer)"
    by (simp add: callGemini_def answering_def Let_def js_def trim_def isWhiteSpace_def
        cleanJson_def startsWith_def fence_def)
  note at_asking = ui_states_bounds [OF a, where sv = "answering wayward_answer" and T = 5
      and b = started and c = None and inp = None and r = wayward_answer]
  note at_loaded = ui_states_bounds [OF l, where sv = "answering wayward_answer" and T = 5
      and b = started and c = None and inp = None and r = wayward_answer]
  have sel: "session (asking\<lparr>selectedChoiceId := Some 1\<rparr>) = (Ask, 0, 0)"
    using at_asking asking_facts by simp
  have mono: "currentQRef loaded \<le> currentQRef (handleAction online loaded None)"
    using at_loaded loaded_facts by blast
  have "ref_question_index
        (tutorStateRef (fetchGeminiResponse (answering wayward_answer) 5 started None None))
          = question_index (resp_state wayward_answer)
     \<and> ref_score
        (tutorStateRef (fetchGeminiResponse (answering wayward_answer) 5 started None None))
          = state_score (resp_state wayward_answer)"
    using at_asking read by (simp add: st)
  then have adopted: "ref_question_index
        (tutorStateRef (fetchGeminiResponse (answering wayward_answer) 5 started None None)) = 3
     \<and> ref_score
        (tutorStateRef (fetchGeminiResponse (answering wayward_answer) 5 started None None)) = 7"
    by (simp add: wayward_answer_def)
  from a l sel mono read adopted asking_facts loaded_facts show ?thesis
    by (simp add: session_def length_QUESTIONS)
qed

section \<open>C3: a failed generation\<close>

text \<open>
  C3: a turn whose generation fails must leave phase, question index and score of the
  session exactly as they were before the turn. The \<^verbatim>\<open>catch\<close> block of
  \<^verbatim>\<open>sendMessage\<close> returns the values it was called with for that purpose, but
  \<^verbatim>\<open>handleAction\<close> has already replaced the session by the next phase and index
  when it makes the call. So whenever an action starts a turn that fails, the refs end
  at the advanced values, a phase other than the one before the action, and the fallback
  screen is shown for it.
\<close>

theorem failed_action_advances_session:
  assumes "tutorResponse a \<noteq> None"
    and "currentPhaseRef a \<noteq> Completed"
    and "\<not> (currentPhaseRef a = Ask \<and> actionInput = None)"
    and "handleAction_next (currentPhaseRef a) (currentQRef a) (currentScoreRef a) = (ph', qi', sc')"
    and "client e = Some generateContent"
    and "sendMessage_try generateContent ph' qi' sc' actionInput = None"
    and "dialogs_complete e"
  shows "session (handleAction e a actionInput) = (ph', qi', sc')
       \<and> ph' \<noteq> currentPhaseRef a
       \<and> session (handleAction e a actionInput) \<noteq> session a
       \<and> tutorResponse (handleAction e a actionInput) = Some (fallback ph' qi' sc')"
proof -
  have h: "handleAction e a actionInput = processTutorTurn e a ph' qi' sc' actionInput"
    using handleAction_turn [OF assms(1-4)] .
  have s: "sendMessage e ph' qi' sc' actionInput = Inr (fallback ph' qi' sc')"
    using assms(5-7) by (simp add: sendMessage_def)
  have ne: "ph' \<noteq> currentPhaseRef a"
    using handleAction_next_phase [OF assms(4)] assms(2) by auto
  show ?thesis
    unfolding h using s ne by (simp add: processTutorTurn_def session_def fallback_def)
qed

theorem failed_action_advances_session_witness:
  "loaded \<in> ui_states \<and> action_enabled loaded None
   \<and> session loaded = (Teach, 0, 0)
   \<and> handleAction_next Teach 0 0 = (Ask, 0, 0)
   \<and> session (handleAction offline loaded None) = (Ask, 0, 0)
   \<and> tutorResponse (handleAction offline loaded None) = Some (fallback Ask 0 0)"
proof -
  have refs: "currentPhaseRef loaded = Teach \<and> currentQRef loaded = 0 \<and> currentScoreRef loaded = 0"
    using loaded_facts by (simp add: session_def)
  have nx: "handleAction_next (currentPhaseRef loaded) (currentQRef loaded) (currentScoreRef loaded)
      = (Ask, 0, 0)"
    using refs by (simp add: handleAction_next_def)
  have fails: "sendMessage_try (\<lambda>p. None) Ask 0 0 None = None"
    by (simp add: ask_turn_try questionAt_def length_QUESTIONS)
  have "session (handleAction offline loaded None) = (Ask, 0, 0)
       \<and> tutorResponse (handleAction offline loaded None) = Some (fallback Ask 0 0)"
    using failed_action_advances_session [of loaded None Ask 0 0 offline "\<lambda>p. None"]
      loaded_facts refs nx fails
    by (simp add: offline_def)
  moreover have "handleAction_next Teach 0 0 = (Ask, 0, 0)"
    by (simp add: handleAction_next_def)
  ultimately show ?thesis using loaded_facts by simp
qed

text \<open>
  After that failed action the screen shows the fallback for phase ask, without choices:
  no choice can be selected and no button calls \<^verbatim>\<open>handleAction\<close>.
\<close>

lemma failed_action_dead_end:
  "\<not> action_enabled (handleAction offline loaded None) actionInput
   \<and> \<not> choice_enabled (handleAction offline loaded None) i"
proof -
  have refs: "currentPhaseRef loaded = Teach \<and> currentQRef loaded = 0 \<and> currentScoreRef loaded = 0"
    using loaded_facts by (simp add: session_def)
  have nx: "handleAction_next (currentPhaseRef loaded) (currentQRef loaded) (currentScoreRef loaded)
      = (Ask, 0, 0)"
    using refs by (simp add: handleAction_next_def)
  have h: "handleAction offline loaded None = processTutorTurn offline loaded Ask 0 0 None"
    using handleAction_turn [of loaded None Ask 0 0 offline] loaded_facts refs nx by simp
  have s: "sendMessage offline Ask 0 0 None = Inr (fallback Ask 0 0)"
    by (simp add: sendMessage_def offline_def ask_turn_try questionAt_def length_QUESTIONS)
  show ?thesis
    unfolding h
    by (auto simp add: processTutorTurn_def s action_enabled_def choice_enabled_def fallback_def)
qed

text \<open>
  The same advance shows when the generation succeeds: the action taken in phase
  Evaluate asks for the turn of phase Ask at the next question, so that question is
  evaluated as unanswered without having been shown.
\<close>

lemma next_question_skipped:
  assumes "tutorResponse a \<noteq> None" and "currentPhaseRef a = Evaluate"
    and "0 \<le> currentQRef a" and "currentQRef a < 4"
  shows "session (handleAction online a None)
           = (Evaluate, currentQRef a + 1, currentScoreRef a)"
proof -
  have nx: "handleAction_next (currentPhaseRef a) (currentQRef a) (currentScoreRef a)
      = (Ask, currentQRef a + 1, currentScoreRef a)"
    using assms by (simp add: handleAction_next_def Let_def)
  have h: "handleAction online a None
      = processTutorTurn online a Ask (currentQRef a + 1) (currentScoreRef a) None"
    using handleAction_turn [OF assms(1) _ _ nx] assms(2) by simp
  obtain cq where cq: "questionAt (currentQRef a + 1) = Some cq"
    using assms(3,4) by (simp add: questionAt_def length_QUESTIONS)
  have s: "sendMessage online Ask (currentQRef a + 1) (currentScoreRef a) None =
      Inr (respond Evaluate (currentQRef a + 1) (currentScoreRef a) ScreenFeedback ''Bien !''
             [] InputNone)"
    by (simp add: sendMessage_def online_def ask_turn_try cq)
  show ?thesis
    unfolding h by (simp add: processTutorTurn_def s session_def respond_def)
qed

section \<open>C4: the shape of a generated response\<close>

text \<open>
  C4, as the specification states it: the response of the generator is validated
  against the shape its phase requires, and an invalid one is generated again once before
  an error is raised. \<^verbatim>\<open>callGemini\<close> does neither: a question with one option
  and no correct answer id is returned as the result, after a single request.
\<close>

theorem invalid_response_accepted:
  "\<not> spec_valid_response one_option_question
   \<and> callGemini (answering one_option_question) 3 PAsk
         \<lparr>question_index = 0, state_score = 0\<rparr> None None None
       = (Inr (Shaped one_option_question),
          [buildGeminiPrompt PAsk \<lparr>question_index = 0, state_score = 0\<rparr> None None None 3])"
  by (simp add: spec_valid_response_def one_option_question_def callGemini_def answering_def
      js_def trim_def isWhiteSpace_def cleanJson_def startsWith_def fence_def Let_def)

text \<open>
  C4, amended: \<^verbatim>\<open>callGemini\<close> sends one request (none when the client cannot
  be built) and never a second one. Its result is a response exactly when the request
  is answered with a text that is not blank and whose cleaned form parses, and then it is
  the parsed value as it is, whatever its fields; in every other case the call fails
  with an error message at once.
\<close>

theorem callGemini_single_request:
  "snd (callGemini sv T ph st c l inp) =
     (case connect sv of Inl m \<Rightarrow> [] | Inr g \<Rightarrow> [buildGeminiPrompt ph st c l inp T])
   \<and> (fst (callGemini sv T ph st c l inp) = Inr r \<longleftrightarrow>
        (\<exists>g t. connect sv = Inr g \<and> g (buildGeminiPrompt ph st c l inp T) = Answer (Some t)
           \<and> trim t \<noteq> [] \<and> JSON_parse sv (cleanJson (trim t)) = Inr r))"
  by (auto simp add: callGemini_def Let_def split: sum.splits generated.splits option.splits)

theorem callGemini_single_request_witness:
  "snd (callGemini unavailable 3 PAsk \<lparr>question_index = 0, state_score = 0\<rparr> None None None)
     = [buildGeminiPrompt PAsk \<lparr>question_index = 0, state_score = 0\<rparr> None None None 3]
   \<and> fst (callGemini unavailable 3 PAsk \<lparr>question_index = 0, state_score = 0\<rparr> None None None)
     \<noteq> Inr (Shaped one_option_question)"
  using callGemini_single_request [of unavailable 3 PAsk
      "\<lparr>question_index = 0, state_score = 0\<rparr>" None None None "Shaped one_option_question"]
  by (simp add: unavailable_def)

section \<open>C5: the command exit\<close>

text \<open>
  C5, as the specification states it: with the command exit the next phase is Completed
  and index and score keep their values. The client sends the command and then takes
  phase, index and score from the response: when the model answers with a next
  question, index 3 and score 7, the session that was (Ask, 1, 1) becomes (Ask, 3, 7).
\<close>

theorem exit_not_enforced:
  "tutorStateRef (handleExit (answering wayward_answer) 5 in_lesson) =
     \<lparr>ref_question_index = 3, ref_score = 7, currentPhase = PAsk,
      ref_correctAnswerId = None, selectedOptionLabel = None\<rparr>
   \<and> currentPhase (tutorStateRef in_lesson) = PAsk
   \<and> ref_question_index (tutorStateRef in_lesson) = 1
   \<and> ref_score (tutorStateRef in_lesson) = 1"
  by (simp add: handleExit_def fetchGeminiResponse_def callGemini_def answering_def
      wayward_answer_def in_lesson_def js_def trim_def isWhiteSpace_def cleanJson_def
      startsWith_def fence_def Let_def)

text \<open>
  C5, amended: while a turn is in flight \<^verbatim>\<open>handleExit\<close> does nothing.
  Otherwise it clears the input field and sends one request (none when the client cannot
  be built) with the current phase, the unchanged index and score and the command
  \<^verbatim>\<open>exit\<close>. When the call returns a response that has a state, phase, index and
  score of the session are those of the response (Completed with unchanged index and
  score exactly when the model answers so) and no error is shown; when the call fails,
  or returns a value without a state, the session is unchanged and the error message is
  set.
\<close>

theorem handleExit_adopts_response:
  "(isLoading a \<longrightarrow> handleExit sv T a = a)
   \<and> (\<not> isLoading a \<longrightarrow>
        (let t = tutorStateRef a;
             st = \<lparr>question_index = ref_question_index t, state_score = ref_score t\<rparr>;
             request = buildGeminiPrompt (currentPhase t) st None (selectedOptionLabel t)
                         (Some (js ''exit'')) T;
             after = handleExit sv T a
         in sent after = sent a @ (case connect sv of Inl m \<Rightarrow> [] | Inr g \<Rightarrow> [request])
          \<and> prompt_phase request = currentPhase t
          \<and> prompt_state request = st
          \<and> commandHandlingInstructions request = Some (js ''exit'', selectedOptionLabel t)
          \<and> learnerCommandInput after = []
          \<and> (case fst (callGemini sv T (currentPhase t) st None (selectedOptionLabel t)
                         (Some (js ''exit''))) of
                Inr (Shaped r) \<Rightarrow>
                  currentPhase (tutorStateRef after) = resp_phase r
                  \<and> ref_question_index (tutorStateRef after) = question_index (resp_state r)
                  \<and> ref_score (tutorStateRef after) = state_score (resp_state r)
                  \<and> fetch_error after = None
              | Inr (Unreadable m) \<Rightarrow>
                  tutorStateRef after = t \<and> fetch_error after = Some m
              | Inl m \<Rightarrow>
                  tutorStateRef after = t \<and> fetch_error after = Some m)))"
proof -
  have idle: "handleExit sv T a = a" if "isLoading a"
    using that by (simp add: handleExit_def)
  have cmd: "commandHandlingInstructions
       (buildGeminiPrompt ph st None l (Some (js ''exit'')) T) = Some (js ''exit'', l)"
    for ph st l
    by (simp add: buildGeminiPrompt_def js_def)
  have busy: "(let t = tutorStateRef a;
             st = \<lparr>question_index = ref_question_index t, state_score = ref_score t\<rparr>;
             request = buildGeminiPrompt (currentPhase t) st None (selectedOptionLabel t)
                         (Some (js ''exit'')) T;
             after = handleExit sv T a
         in sent after = sent a @ (case connect sv of Inl m \<Rightarrow> [] | Inr g \<Rightarrow> [request])
          \<and> prompt_phase request = currentPhase t
          \<and> prompt_state request = st
          \<and> commandHandlingInstructions request = Some (js ''exit'', selectedOptionLabel t)
          \<and> learnerCommandInput after = []
          \<and> (case fst (callGemini sv T (currentPhase t) st None (selectedOptionLabel t)
                         (Some (js ''exit''))) of
                Inr (Shaped r) \<Rightarrow>
                  currentPhase (tutorStateRef after) = resp_phase r
                  \<and> ref_question_index (tutorStateRef after) = question_index (resp_state r)
                  \<and> ref_score (tutorStateRef after) = state_score (resp_state r)
                  \<and> fetch_error after = None
              | Inr (Unreadable m) \<Rightarrow>
                  tutorStateRef after = t \<and> fetch_error after = Some m
              | Inl m \<Rightarrow>
                  tutorStateRef after = t \<and> fetch_error after = Some m))"
    if "\<not> isLoading a"
    using that
    by (simp add: handleExit_def Let_def sent_fetchGeminiResponse ref_fetchGeminiResponse
        error_fetchGeminiResponse snd_callGemini cmd
        split: sum.splits parsed.splits)
      (simp add: buildGeminiPrompt_def)
  from idle busy show ?thesis by blast
qed

theorem handleExit_adopts_response_witness:
  "\<not> isLoading in_lesson
   \<and> tutorStateRef (handleExit stateless 5 in_lesson) = tutorStateRef in_lesson
   \<and> fetch_error (handleExit stateless 5 in_lesson)
       = Some ''Cannot read properties of undefined (reading 'question_index')''
   \<and> length (sent (handleExit stateless 5 in_lesson)) = 1
   \<and> isLoading (in_lesson\<lparr>isLoading := True\<rparr>)
   \<and> handleExit stateless 5 (in_lesson\<lparr>isLoading := True\<rparr>) = in_lesson\<lparr>isLoading := True\<rparr>"
proof -
  have il: "\<not> isLoading in_lesson"
    "tutorStateRef in_lesson =
       \<lparr>ref_question_index = 1, ref_score = 1, currentPhase = PAsk,
        ref_correctAnswerId = Some 2, selectedOptionLabel = None\<rparr>"
    by (simp_all add: in_lesson_def)
  have call: "fst (callGemini stateless 5 PAsk \<lparr>question_index = 1, state_score = 1\<rparr> None None
                (Some (js ''exit'')))
              = Inr (Unreadable ''Cannot read properties of undefined (reading 'question_index')'')"
    by (simp add: callGemini_def stateless_def Let_def js_def trim_def isWhiteSpace_def)
  have conn: "connect stateless = Inr (\<lambda>p. Answer (Some (js ''{}'')))"
    by (simp add: stateless_def)
  have one: "tutorStateRef (handleExit stateless 5 in_lesson) = tutorStateRef in_lesson
   \<and> fetch_error (handleExit stateless 5 in_lesson)
       = Some ''Cannot read properties of undefined (reading 'question_index')''
   \<and> length (sent (handleExit stateless 5 in_lesson)) = 1"
    using handleExit_adopts_response [of in_lesson stateless 5]
    by (simp add: il Let_def call conn) (simp add: in_lesson_def)
  have two: "handleExit stateless 5 (in_lesson\<lparr>isLoading := True\<rparr>) = in_lesson\<lparr>isLoading := True\<rparr>"
    using handleExit_adopts_response [of "in_lesson\<lparr>isLoading := True\<rparr>" stateless 5]
    by simp
  from one two il show ?thesis by simp
qed

section \<open>C6: the progress percentage\<close>

text \<open>
  C6, as the specification states it: the progress of phase Completed is 100 for every
  question index from 0 to the number of questions. The code returns 100 for Completed
  only through its test \<^verbatim>\<open>q >= QUESTIONS.length\<close>; at question index 0 it
  returns 10.
\<close>

theorem getProgress_Completed_not_100:
  "(0::int) \<le> int (length QUESTIONS)
   \<and> getProgress 0 Completed = 10
   \<and> spec_progress Completed 0 (int (length QUESTIONS)) = 100"
  by (simp add: getProgress_def spec_progress_def length_QUESTIONS)

text \<open>
  C6, amended: \<^verbatim>\<open>getProgress\<close> is a function of the phase and the question index
  alone (the number of questions is the length of the table, 5). For every question
  index from 0 to 5 it equals the formula of the specification at 5 questions, except in
  phase Completed before the last question, where it is \<open>10 + 18 * questionIndex\<close>.
\<close>

theorem getProgress_formula:
  assumes "0 \<le> qi" and "qi \<le> int (length QUESTIONS)"
  shows "getProgress qi ph =
           (if ph = Completed \<and> qi < int (length QUESTIONS) then 10 + qi * 18
            else spec_progress ph qi (int (length QUESTIONS)))"
proof -
  have "qi = 0 \<or> qi = 1 \<or> qi = 2 \<or> qi = 3 \<or> qi = 4 \<or> qi = 5"
    using assms by (simp add: length_QUESTIONS) arith
  then show ?thesis
    by (cases ph) (auto simp add: getProgress_def spec_progress_def length_QUESTIONS)
qed

theorem getProgress_formula_witness:
  "(0::int) \<le> 3 \<and> (3::int) \<le> int (length QUESTIONS) \<and> getProgress 3 Ask = 64
   \<and> spec_progress Ask 3 (int (length QUESTIONS)) = 64"
  using getProgress_formula [of 3 Ask]
  by (simp add: spec_progress_def length_QUESTIONS)

section \<open>C7: a turn in phase Ask without an answer\<close>

text \<open>
  C7, as the specification states it: with current phase Ask and no selection (and no
  command) the turn fails with the error that no answer was given, and phase, question
  index and score keep their values. \<^verbatim>\<open>sendMessage\<close> has no such check: called
  in phase Ask without a selection it treats the missing answer as a wrong one and
  returns phase Evaluate, with no error. \<^verbatim>\<open>handleAction\<close> makes that call when
  Continue is pressed in phase Teach, where the session then goes from (Teach, 0, 0) to
  (Evaluate, 0, 0).
\<close>

theorem missing_answer_is_scored:
  "committed (sendMessage online Ask 0 0 None) = Some (Evaluate, 0, 0)
   \<and> session loaded = (Teach, 0, 0)
   \<and> action_enabled loaded None
   \<and> session (handleAction online loaded None) = (Evaluate, 0, 0)
   \<and> error (handleAction online loaded None) = None"
proof -
  have s: "sendMessage online Ask 0 0 None =
      Inr (respond Evaluate 0 0 ScreenFeedback ''Bien !'' [] InputNone)"
    by (simp add: sendMessage_def online_def ask_turn_try questionAt_def QUESTIONS_def)
  have refs: "currentPhaseRef loaded = Teach \<and> currentQRef loaded = 0 \<and> currentScoreRef loaded = 0"
    using loaded_facts by (simp add: session_def)
  have nx: "handleAction_next (currentPhaseRef loaded) (currentQRef loaded) (currentScoreRef loaded)
      = (Ask, 0, 0)"
    using refs by (simp add: handleAction_next_def)
  have h: "handleAction online loaded None = processTutorTurn online loaded Ask 0 0 None"
    using handleAction_turn [of loaded None Ask 0 0 online] loaded_facts refs nx by simp
  have "session (handleAction online loaded None) = (Evaluate, 0, 0)
      \<and> error (handleAction online loaded None) = None"
    unfolding h by (simp add: processTutorTurn_def s session_def respond_def)
  with s loaded_facts show ?thesis by (simp add: committed_respond)
qed

text \<open>
  C7, amended. Whenever a response is held and the session is in phase Ask,
  \<^verbatim>\<open>handleAction\<close> without a selection sets the error
  \<open>Please select an answer.\<close>, runs no turn, and leaves phase, question index, score
  and the shown response as they were. \<^verbatim>\<open>sendMessage\<close> itself does not reject a
  missing answer: in phase Ask without a selection it never changes question index or
  score, and it returns phase Evaluate whenever the client is built, the question is in
  the table and the feedback text is generated.
\<close>

theorem missing_answer:
  "(tutorResponse a \<noteq> None \<and> currentPhaseRef a = Ask
      \<longrightarrow> handleAction e a None = a\<lparr>error := Some ''Please select an answer.''\<rparr>
          \<and> session (handleAction e a None) = session a
          \<and> tutorResponse (handleAction e a None) = tutorResponse a)
   \<and> (committed (sendMessage e Ask qi sc None) = None
        \<or> committed (sendMessage e Ask qi sc None) = Some (Ask, qi, sc)
        \<or> committed (sendMessage e Ask qi sc None) = Some (Evaluate, qi, sc))
   \<and> (client e = Some generateContent \<and> questionAt qi = Some currentQuestion
        \<and> generateContent (IncorrectPrompt (question currentQuestion)
             (correctAnswerLabel currentQuestion)) \<noteq> None
      \<longrightarrow> committed (sendMessage e Ask qi sc None) = Some (Evaluate, qi, sc))"
proof -
  have guard: "handleAction e a None = a\<lparr>error := Some ''Please select an answer.''\<rparr>
          \<and> session (handleAction e a None) = session a
          \<and> tutorResponse (handleAction e a None) = tutorResponse a"
    if "tutorResponse a \<noteq> None" "currentPhaseRef a = Ask"
    using that by (auto simp add: handleAction_def session_def)
  have total: "committed (sendMessage e Ask qi sc None) = None
        \<or> committed (sendMessage e Ask qi sc None) = Some (Ask, qi, sc)
        \<or> committed (sendMessage e Ask qi sc None) = Some (Evaluate, qi, sc)"
  proof (cases "committed (sendMessage e Ask qi sc None)")
    case None
    then show ?thesis by simp
  next
    case (Some s)
    obtain ph' qi' sc' where s: "s = (ph', qi', sc')" by (cases s) auto
    from ask_turn_committed [of e qi sc None ph' qi' sc'] Some s
    show ?thesis by auto
  qed
  have success: "committed (sendMessage e Ask qi sc None) = Some (Evaluate, qi, sc)"
    if "client e = Some generateContent" "questionAt qi = Some currentQuestion"
      "generateContent (IncorrectPrompt (question currentQuestion)
             (correctAnswerLabel currentQuestion)) \<noteq> None"
    using that by (auto simp add: sendMessage_def ask_turn_try committed_respond)
  from guard total success show ?thesis by blast
qed

theorem missing_answer_witness:
  "submit_rejected \<in> ui_states \<and> action_enabled submit_rejected None
   \<and> tutorResponse submit_rejected \<noteq> None \<and> currentPhaseRef submit_rejected = Ask
   \<and> handleAction online submit_rejected None =
       submit_rejected\<lparr>error := Some ''Please select an answer.''\<rparr>
   \<and> session (handleAction online submit_rejected None) = (Ask, 0, 0)
   \<and> client online \<noteq> None \<and> questionAt 1 \<noteq> None
   \<and> committed (sendMessage online Ask 1 0 None) = Some (Evaluate, 1, 0)"
proof -
  have r: "tutorResponse submit_rejected \<noteq> None"
    by (simp add: submit_rejected_eq asking_eq)
  have f: "submit_rejected \<in> ui_states \<and> action_enabled submit_rejected None
     \<and> currentPhaseRef submit_rejected = Ask \<and> session submit_rejected = (Ask, 0, 0)"
    using submit_rejected_facts by (simp add: session_def)
  have q: "questionAt 1 = Some (QUESTIONS ! 1)"
    by (simp add: questionAt_def length_QUESTIONS)
  from missing_answer [of submit_rejected online 1 0 "\<lambda>p. Some ''Bien !''" "QUESTIONS ! 1"]
    r f q
  show ?thesis by (simp add: session_def online_def)
qed

section \<open>C8: the command text\<close>

text \<open>
  C8, as the specification states it: the command is a function of the raw text alone,
  found by exact match against the vocabulary, and any other text is Unrecognized. In
  \<^verbatim>\<open>handleCommandSubmit\<close> the same text \<^verbatim>\<open>continue\<close> is sent as
  \<^verbatim>\<open>resume\<close> while the lesson is paused and as \<^verbatim>\<open>continue\<close> otherwise,
  and a text outside the vocabulary is sent as it is.
\<close>

theorem command_depends_on_phase:
  "map commandHandlingInstructions
       (sent (handleCommandSubmit unavailable 5 (typed_in (js ''continue'') PPaused)))
     = [Some (js ''resume'', None)]
   \<and> map commandHandlingInstructions
       (sent (handleCommandSubmit unavailable 5 (typed_in (js ''continue'') PAsk)))
     = [Some (js ''continue'', None)]
   \<and> map commandHandlingInstructions
       (sent (handleCommandSubmit unavailable 5 (typed_in (js ''sing a song'') PAsk)))
     = [Some (js ''sing a song'', None)]"
  by (simp add: handleCommandSubmit_def submitCommand_def typed_in_def in_lesson_def
      sent_fetchGeminiResponse snd_callGemini buildGeminiPrompt_def unavailable_def
      js_def trim_def isWhiteSpace_def asciiLowerCase_def Let_def)

text \<open>
  C8, amended: \<^verbatim>\<open>handleCommandSubmit\<close> does not classify the text. While a turn
  is in flight, or when the text trims to nothing, it does nothing. Otherwise it runs one
  turn with a command and clears the input field; the command is the trimmed text in
  lower case, except that \<^verbatim>\<open>continue\<close> is replaced by \<^verbatim>\<open>resume\<close> while
  the phase is Paused; the turn sends one request (none when the client cannot be built)
  that carries the command, and what the command means is left to the generator. So the
  command sent is a function of the raw text and the current phase.
\<close>

theorem handleCommandSubmit_sends:
  "(isLoading a \<or> trim (learnerCommandInput a) = [] \<longrightarrow> handleCommandSubmit sv T a = a)
   \<and> (\<not> isLoading a \<and> trim (learnerCommandInput a) \<noteq> [] \<longrightarrow>
        (let t = tutorStateRef a;
             command = toLowerCase sv (trim (learnerCommandInput a));
             submitted = (if command = js ''continue'' \<and> currentPhase t = PPaused
                          then js ''resume'' else command)
         in handleCommandSubmit sv T a =
              (fetchGeminiResponse sv T a None (Some submitted))\<lparr>learnerCommandInput := []\<rparr>
          \<and> sent (handleCommandSubmit sv T a) =
              sent a @ (case connect sv of
                          Inl m \<Rightarrow> []
                        | Inr g \<Rightarrow>
                            [buildGeminiPrompt (currentPhase t)
                               \<lparr>question_index = ref_question_index t, state_score = ref_score t\<rparr>
                               None (selectedOptionLabel t) (Some submitted) T])))"
proof -
  have idle: "handleCommandSubmit sv T a = a"
    if "isLoading a \<or> trim (learnerCommandInput a) = []"
    using that by (auto simp add: handleCommandSubmit_def submitCommand_def)
  have busy: "(let t = tutorStateRef a;
             command = toLowerCase sv (trim (learnerCommandInput a));
             submitted = (if command = js ''continue'' \<and> currentPhase t = PPaused
                          then js ''resume'' else command)
         in handleCommandSubmit sv T a =
              (fetchGeminiResponse sv T a None (Some submitted))\<lparr>learnerCommandInput := []\<rparr>
          \<and> sent (handleCommandSubmit sv T a) =
              sent a @ (case connect sv of
                          Inl m \<Rightarrow> []
                        | Inr g \<Rightarrow>
                            [buildGeminiPrompt (currentPhase t)
                               \<lparr>question_index = ref_question_index t, state_score = ref_score t\<rparr>
                               None (selectedOptionLabel t) (Some submitted) T]))"
    if "\<not> isLoading a" "trim (learnerCommandInput a) \<noteq> []"
    using that
    by (simp add: handleCommandSubmit_def submitCommand_def Let_def sent_fetchGeminiResponse
        snd_callGemini)
  from idle busy show ?thesis by blast
qed

theorem handleCommandSubmit_sends_witness:
  "\<not> isLoading (typed_in (160 # js ''Pause '') PTeach)
   \<and> trim (learnerCommandInput (typed_in (160 # js ''Pause '') PTeach)) \<noteq> []
   \<and> map commandHandlingInstructions
       (sent (handleCommandSubmit unavailable 5 (typed_in (160 # js ''Pause '') PTeach)))
     = [Some (js ''pause'', None)]
   \<and> trim (learnerCommandInput (typed_in [160, 32] PTeach)) = []
   \<and> handleCommandSubmit unavailable 5 (typed_in [160, 32] PTeach) = typed_in [160, 32] PTeach"
proof -
  have ty: "\<not> isLoading (typed_in s ph)" "learnerCommandInput (typed_in s ph) = s"
    "sent (typed_in s ph) = []"
    "tutorStateRef (typed_in s ph) =
       \<lparr>ref_question_index = 1, ref_score = 1, currentPhase = ph,
        ref_correctAnswerId = Some 2, selectedOptionLabel = None\<rparr>" for s ph
    by (simp_all add: typed_in_def in_lesson_def)
  have t1: "trim (160 # js ''Pause '') = js ''Pause''"
    by (simp add: js_def trim_def isWhiteSpace_def)
  have l1: "toLowerCase unavailable (js ''Pause'') = js ''pause''"
    by (simp add: unavailable_def asciiLowerCase_def js_def)
  have ne: "js ''pause'' \<noteq> js ''continue''" "js ''Pause'' \<noteq> []"
    by (simp_all add: js_def)
  have t2: "trim [160, 32] = []"
    by (simp add: trim_def isWhiteSpace_def)
  have conn: "connect unavailable = Inr (\<lambda>p. Throws ''Failed to fetch'')"
    by (simp add: unavailable_def)
  have both: "handleCommandSubmit unavailable 5 (typed_in (160 # js ''Pause '') PTeach) =
       (fetchGeminiResponse unavailable 5 (typed_in (160 # js ''Pause '') PTeach) None
          (Some (js ''pause'')))\<lparr>learnerCommandInput := []\<rparr>
     \<and> sent (handleCommandSubmit unavailable 5 (typed_in (160 # js ''Pause '') PTeach)) =
       [buildGeminiPrompt PTeach \<lparr>question_index = 1, state_score = 1\<rparr> None None
          (Some (js ''pause'')) 5]"
    using handleCommandSubmit_sends [of "typed_in (160 # js ''Pause '') PTeach" unavailable 5]
    by (auto simp add: ty t1 l1 ne Let_def conn)
  have pr: "commandHandlingInstructions
       (buildGeminiPrompt PTeach \<lparr>question_index = 1, state_score = 1\<rparr> None None
          (Some (js ''pause'')) 5) = Some (js ''pause'', None)"
    by (simp add: buildGeminiPrompt_def js_def)
  have one: "map commandHandlingInstructions
       (sent (handleCommandSubmit unavailable 5 (typed_in (160 # js ''Pause '') PTeach)))
     = [Some (js ''pause'', None)]"
    by (simp add: both [THEN conjunct2] pr)
  have two: "handleCommandSubmit unavailable 5 (typed_in [160, 32] PTeach) = typed_in [160, 32] PTeach"
    using handleCommandSubmit_sends [of "typed_in [160, 32] PTeach" unavailable 5]
    by (simp add: ty t2)
  from one two ty t1 t2 ne show ?thesis by simp
qed

section \<open>C9: the answer is compared with the correct answer id\<close>




section \<open>C10: selecting an option outside phase Ask\<close>

text \<open>
  C10: when the phase is not Ask, or a turn is in flight, \<^verbatim>\<open>handleOptionSelect\<close>
  returns the state it was given: question index, score and phase are unchanged and no
  request is sent.
\<close>

theorem handleOptionSelect_noop:
  assumes "currentPhase (tutorStateRef a) \<noteq> PAsk \<or> isLoading a"
  shows "handleOptionSelect sv T a selectedOptionId selectedLabel = a"
  using assms by (auto simp add: handleOptionSelect_def Let_def)

theorem handleOptionSelect_noop_witness:
  "isLoading (in_lesson\<lparr>isLoading := True\<rparr>)
   \<and> handleOptionSelect (answering wayward_answer) 5 (in_lesson\<lparr>isLoading := True\<rparr>) 2 ''Merci''
       = in_lesson\<lparr>isLoading := True\<rparr>
   \<and> sent (handleOptionSelect (answering wayward_answer) 5 (in_lesson\<lparr>isLoading := True\<rparr>) 2 ''Merci'')
       = []"
  using handleOptionSelect_noop [of "in_lesson\<lparr>isLoading := True\<rparr>" "answering wayward_answer" 5 2 "''Merci''"]
  by (simp add: in_lesson_def)

end
